theory Spec2Isabelle
  imports Complex_Main "HOL-Library.Log_Nat"
begin

section \<open>JavaScript numbers\<close>

text \<open>
  A JavaScript \<^verbatim>\<open>number\<close> is an IEEE 754 double. A finite double is modelled by the
  real it stands for, beside the three special values. Every arithmetic operation gives
  the exact result rounded to the nearest double, a tie going to the even significand,
  as the language prescribes. The sign of zero is not modelled: every zero is \<open>+0\<close>.
\<close>

datatype jsnum = Fin real | PosInf | NegInf | NaN

text \<open>The nearest integer, a tie going to the even one.\<close>

definition rne :: "real \<Rightarrow> int" where
  "rne x =
     (let f = \<lfloor>x\<rfloor>; r = x - of_int f
      in if r < 1 / 2 then f else if 1 / 2 < r then f + 1 else if even f then f else f + 1)"

text \<open>The exponent \<open>e\<close> with \<^verbatim>\<open>2^e <= |x| < 2^(e+1)\<close>, for \<open>x \<noteq> 0\<close>.\<close>

definition binade :: "real \<Rightarrow> int" where
  "binade x =
     (if 1 \<le> \<bar>x\<bar> then bitlen \<lfloor>\<bar>x\<bar>\<rfloor> - 1 else - bitlen (\<lceil>1 / \<bar>x\<bar>\<rceil> - 1))"

text \<open>
  The spacing of the doubles around \<open>x\<close>: 53 significant bits, and the fixed spacing
  \<^verbatim>\<open>2^-1074\<close> of the subnormal range below \<^verbatim>\<open>2^-1022\<close>.
\<close>

definition ulp :: "real \<Rightarrow> real" where
  "ulp x = 2 powi (max (binade x) (- 1022) - 52)"

text \<open>The multiple of that spacing nearest to \<open>x\<close>.\<close>

definition nearest :: "real \<Rightarrow> real" where
  "nearest x = ulp x * of_int (rne (x / ulp x))"

text \<open>The double for a real result: a magnitude that rounds to \<^verbatim>\<open>2^1024\<close> overflows.\<close>

definition to_double :: "real \<Rightarrow> jsnum" where
  "to_double x =
     (if x = 0 then Fin 0
      else if 2 powi 1024 \<le> \<bar>nearest x\<bar> then (if 0 < x then PosInf else NegInf)
      else Fin (nearest x))"

text \<open>An integer read as a number, as \<^verbatim>\<open>JSON.parse\<close> reads an integer literal.\<close>

definition num :: "int \<Rightarrow> jsnum" where
  "num i = to_double (of_int i)"

text \<open>\<^verbatim>\<open>x + y\<close>, \<^verbatim>\<open>x * y\<close> and \<^verbatim>\<open>x / y\<close>.\<close>

fun js_add :: "jsnum \<Rightarrow> jsnum \<Rightarrow> jsnum" where
  "js_add (Fin a) (Fin b) = to_double (a + b)"
| "js_add NaN y = NaN"
| "js_add x NaN = NaN"
| "js_add PosInf NegInf = NaN"
| "js_add NegInf PosInf = NaN"
| "js_add PosInf y = PosInf"
| "js_add NegInf y = NegInf"
| "js_add (Fin a) y = y"

fun js_mul :: "jsnum \<Rightarrow> jsnum \<Rightarrow> jsnum" where
  "js_mul (Fin a) (Fin b) = to_double (a * b)"
| "js_mul NaN y = NaN"
| "js_mul x NaN = NaN"
| "js_mul PosInf (Fin b) = (if b = 0 then NaN else if 0 < b then PosInf else NegInf)"
| "js_mul NegInf (Fin b) = (if b = 0 then NaN else if 0 < b then NegInf else PosInf)"
| "js_mul (Fin a) PosInf = (if a = 0 then NaN else if 0 < a then PosInf else NegInf)"
| "js_mul (Fin a) NegInf = (if a = 0 then NaN else if 0 < a then NegInf else PosInf)"
| "js_mul PosInf PosInf = PosInf"
| "js_mul PosInf NegInf = NegInf"
| "js_mul NegInf PosInf = NegInf"
| "js_mul NegInf NegInf = PosInf"

fun js_div :: "jsnum \<Rightarrow> jsnum \<Rightarrow> jsnum" where
  "js_div (Fin a) (Fin b) =
     (if b \<noteq> 0 then to_double (a / b)
      else if 0 < a then PosInf
      else if a < 0 then NegInf
      else NaN)"
| "js_div NaN y = NaN"
| "js_div x NaN = NaN"
| "js_div (Fin a) PosInf = Fin 0"
| "js_div (Fin a) NegInf = Fin 0"
| "js_div PosInf (Fin b) = (if 0 \<le> b then PosInf else NegInf)"
| "js_div NegInf (Fin b) = (if 0 \<le> b then NegInf else PosInf)"
| "js_div PosInf y = NaN"
| "js_div NegInf y = NaN"

text \<open>\<^verbatim>\<open>x >= c\<close> for a finite right operand; every comparison with NaN is false.\<close>

fun js_ge :: "jsnum \<Rightarrow> real \<Rightarrow> bool" where
  "js_ge (Fin x) c = (c \<le> x)"
| "js_ge PosInf c = True"
| "js_ge NegInf c = False"
| "js_ge NaN c = False"

text \<open>\<^verbatim>\<open>Math.round\<close>: the nearest integer, a tie going up; the special values stay.\<close>

fun js_round :: "jsnum \<Rightarrow> jsnum" where
  "js_round (Fin x) = Fin (of_int \<lfloor>x + 1 / 2\<rfloor>)"
| "js_round PosInf = PosInf"
| "js_round NegInf = NegInf"
| "js_round NaN = NaN"

text \<open>A positive real at or above the smallest normal double.\<close>

definition normal :: "real \<Rightarrow> bool" where
  "normal x = (2 powi (- 1022) \<le> x)"

section \<open>Data model of the booking wizard\<close>

text \<open>The fields of \<^verbatim>\<open>Department\<close> and \<^verbatim>\<open>Business\<close> that the component reads.\<close>

record Department =
  dept_id :: string
  dept_name :: string
  currentQueueSize :: int
  maxQueueSize :: int
  estimatedWaitTime :: int

record Business =
  business_id :: "string option"
  business__id :: "string option"
  business_name :: string
  departments :: "Department list"

datatype status_icon = XCircle | AlertCircle | Clock | CheckCircle

record dept_status =
  color :: string
  bg :: string
  status :: string
  icon :: status_icon

text \<open>
  The occupancy \<^verbatim>\<open>(dept.currentQueueSize / dept.maxQueueSize) * 100\<close>: a division and a
  multiplication of doubles, each rounded.
\<close>

definition percentage :: "Department \<Rightarrow> jsnum" where
  "percentage dept =
     js_mul (js_div (num (currentQueueSize dept)) (num (maxQueueSize dept))) (Fin 100)"

definition getDepartmentStatus :: "Department \<Rightarrow> dept_status" where
  "getDepartmentStatus dept =
     (if js_ge (percentage dept) 90 then
        \<lparr>color = ''text-red-600'', bg = ''bg-red-100 dark:bg-red-900/20'',
         status = ''Full'', icon = XCircle\<rparr>
      else if js_ge (percentage dept) 70 then
        \<lparr>color = ''text-orange-600'', bg = ''bg-orange-100 dark:bg-orange-900/20'',
         status = ''Busy'', icon = AlertCircle\<rparr>
      else if js_ge (percentage dept) 30 then
        \<lparr>color = ''text-yellow-600'', bg = ''bg-yellow-100 dark:bg-yellow-900/20'',
         status = ''Moderate'', icon = Clock\<rparr>
      else
        \<lparr>color = ''text-green-600'', bg = ''bg-green-100 dark:bg-green-900/20'',
         status = ''Available'', icon = CheckCircle\<rparr>)"

text \<open>
  \<^verbatim>\<open>Math.round(departments.reduce((t, d) => t + d.estimatedWaitTime, 0) / departments.length)\<close>:
  every addition of the \<^verbatim>\<open>reduce\<close> and the division are operations on doubles.
\<close>

definition averageWaitTime :: "Business \<Rightarrow> jsnum" where
  "averageWaitTime business =
     js_round
       (js_div (fold (\<lambda>dept total. js_add total (num (estimatedWaitTime dept)))
                  (departments business) (Fin 0))
               (num (int (length (departments business)))))"

definition totalQueueSize :: "Business \<Rightarrow> jsnum" where
  "totalQueueSize business =
     fold (\<lambda>dept total. js_add total (num (currentQueueSize dept))) (departments business) (Fin 0)"

text \<open>The sum of a list of integers as the \<^verbatim>\<open>reduce\<close> computes it, in doubles from 0.\<close>

definition js_sum :: "int list \<Rightarrow> jsnum" where
  "js_sum ws = fold (\<lambda>w total. js_add total (num w)) ws (Fin 0)"

section \<open>The outside world: HTTP results, notifications\<close>

text \<open>
  What \<^verbatim>\<open>await res.json()\<close> gives: the promise rejects (with the error's message),
  or the body is \<^verbatim>\<open>null\<close>, or it is an object.
\<close>

datatype 'a json_body = Unreadable string | JNull | JObj 'a

record 'a response =
  ok :: bool
  res_status :: string
  res_text :: string
  json :: "'a json_body"

text \<open>What \<^verbatim>\<open>await fetch(...)\<close> gives: a rejection (network error) or a response.\<close>

datatype 'a fetch_result = Rejected string | Resolved "'a response"

datatype js_error = Error string | TypeError string | SyntaxError string | ReferenceError string

datatype toast = ToastError string | ToastSuccess string

text \<open>An object whose properties are strings; an absent property reads \<^verbatim>\<open>undefined\<close>.\<close>

type_synonym js_object = "string \<rightharpoonup> string"

text \<open>Truthiness of a string that may be \<^verbatim>\<open>null\<close> or \<^verbatim>\<open>undefined\<close>.\<close>

definition truthy :: "string option \<Rightarrow> bool" where
  "truthy x = (case x of None \<Rightarrow> False | Some v \<Rightarrow> v \<noteq> [])"

text \<open>\<^verbatim>\<open>a || b\<close> on two such strings.\<close>

definition js_or :: "string option \<Rightarrow> string option \<Rightarrow> string option" where
  "js_or a b = (if truthy a then a else b)"

text \<open>\<^verbatim>\<open>user?.name || ""\<close> and \<^verbatim>\<open>user?.email || ""\<close>.\<close>

definition user_field_or_empty :: "js_object option \<Rightarrow> string \<Rightarrow> string" where
  "user_field_or_empty usr f =
     (case usr of None \<Rightarrow> [] | Some u \<Rightarrow> (case u f of None \<Rightarrow> [] | Some v \<Rightarrow> v))"

definition null_property_message :: string where
  "null_property_message = ''Cannot read properties of null''"

section \<open>State of the booking wizard\<close>

datatype BookingStep = Departments | Details | Confirm | Success

text \<open>The object given to \<^verbatim>\<open>JSON.stringify\<close> for the QR code; the serialisation is not modelled.\<close>

record qr_payload =
  qr_bookingId :: "string option"
  qr_tokenNumber :: "string option"
  qr_businessName :: "string option"
  qr_departmentName :: "string option"
  qr_customerName :: "string option"
  qr_date :: "string option"
  qr_time :: string

record BookingData =
  departmentId :: string
  customerName :: string
  customerPhone :: string
  customerEmail :: string
  bd_notes :: string
  tokenNumber :: "int option"
  bd_estimatedWaitTime :: "int option"
  bookingId :: "string option"
  qrCode :: "qr_payload option"
  bookedAt :: "string option"
  businessName :: "string option"
  departmentName :: "string option"

text \<open>The properties of the booking returned by \<^verbatim>\<open>POST /api/queues/book\<close> that are read.\<close>

record booking_record =
  r_id :: "string option"
  r_businessName :: "string option"
  r_departmentName :: "string option"
  r_customerName :: "string option"
  r_bookedAt :: "string option"

record booking_payload =
  p_businessId :: string
  p_businessName :: string
  p_departmentName :: string
  p_customerName :: string
  p_customerPhone :: string
  p_notes :: string
  p_bookedAt :: string

text \<open>One call of \<^verbatim>\<open>fetch\<close> by the wizard: the bearer token read from storage and the body.\<close>

datatype booking_request = PostBooking "string option" booking_payload

text \<open>
  What the component reads from outside its own state: the \<^verbatim>\<open>business\<close> prop, the user
  of the auth context, the stored token, the clock and the locale's time format.
\<close>

record wizard_env =
  env_business :: Business
  env_user :: "js_object option"
  env_token :: "string option"
  env_now :: string
  env_localeTime :: "string option \<Rightarrow> string"

text \<open>
  The component's state, with the notifications shown, the requests sent and the calls
  of \<^verbatim>\<open>onClose\<close> recorded as it goes.
\<close>

record wizard =
  currentStep :: BookingStep
  selectedDepartment :: "Department option"
  isLoading :: bool
  bookingData :: BookingData
  toasts :: "toast list"
  requests :: "booking_request list"
  onCloseCalls :: nat

definition initialBookingData :: "js_object option \<Rightarrow> BookingData" where
  "initialBookingData usr =
     \<lparr>departmentId = [],
      customerName = user_field_or_empty usr ''name'',
      customerPhone = [],
      customerEmail = user_field_or_empty usr ''email'',
      bd_notes = [],
      tokenNumber = None, bd_estimatedWaitTime = None, bookingId = None, qrCode = None,
      bookedAt = None, businessName = None, departmentName = None\<rparr>"

definition initialWizard :: "wizard_env \<Rightarrow> wizard" where
  "initialWizard env =
     \<lparr>currentStep = Departments, selectedDepartment = None, isLoading = False,
      bookingData = initialBookingData (env_user env),
      toasts = [], requests = [], onCloseCalls = 0\<rparr>"

section \<open>Handlers of the booking wizard\<close>

definition handleDepartmentSelect :: "Department \<Rightarrow> wizard \<Rightarrow> wizard" where
  "handleDepartmentSelect dept s =
     s\<lparr>selectedDepartment := Some dept,
       bookingData := (bookingData s)\<lparr>departmentId := dept_id dept\<rparr>\<rparr>"

text \<open>
  The card's \<^verbatim>\<open>onClick\<close>:
  \<^verbatim>\<open>dept.currentQueueSize < dept.maxQueueSize && handleDepartmentSelect(dept)\<close>.
\<close>

definition onDepartmentClick :: "Department \<Rightarrow> wizard \<Rightarrow> wizard" where
  "onDepartmentClick dept s =
     (if currentQueueSize dept < maxQueueSize dept then handleDepartmentSelect dept s else s)"

text \<open>The conditional part of the card's class name.\<close>

definition cardClassName :: "wizard \<Rightarrow> Department \<Rightarrow> string" where
  "cardClassName s dept =
     (if (case selectedDepartment s of None \<Rightarrow> False | Some sel \<Rightarrow> dept_id sel = dept_id dept)
      then ''border-l-primary shadow-lg ring-2 ring-primary''
      else if maxQueueSize dept \<le> currentQueueSize dept
      then ''border-l-red-500 opacity-50 cursor-not-allowed''
      else ''border-l-blue-500 hover:border-l-primary'')"

text \<open>\<^verbatim>\<open>\d\<close> matches the ten ASCII digits.\<close>

definition is_digit :: "char \<Rightarrow> bool" where
  "is_digit c = (c \<in> set ''0123456789'')"

text \<open>\<^verbatim>\<open>/^\d{10}$/.test(s)\<close>.\<close>

definition phoneRegex_test :: "string \<Rightarrow> bool" where
  "phoneRegex_test s = (length s = 10 \<and> list_all is_digit s)"

definition handleDetailsSubmit :: "wizard \<Rightarrow> wizard" where
  "handleDetailsSubmit s =
     (if customerName (bookingData s) = [] \<or> customerPhone (bookingData s) = [] then
        s\<lparr>toasts := toasts s @ [ToastError ''Please fill in all required fields'']\<rparr>
      else if \<not> phoneRegex_test (customerPhone (bookingData s)) then
        s\<lparr>toasts := toasts s @ [ToastError ''Phone number must be exactly 10 digits'']\<rparr>
      else s\<lparr>currentStep := Confirm\<rparr>)"

text \<open>The \<^verbatim>\<open>onChange\<close> handlers of the four inputs of the details step.\<close>

definition onNameChange :: "string \<Rightarrow> wizard \<Rightarrow> wizard" where
  "onNameChange v s = s\<lparr>bookingData := (bookingData s)\<lparr>customerName := v\<rparr>\<rparr>"

definition onPhoneChange :: "string \<Rightarrow> wizard \<Rightarrow> wizard" where
  "onPhoneChange v s =
     (let val = filter is_digit v in
      if length val \<le> 10 then s\<lparr>bookingData := (bookingData s)\<lparr>customerPhone := val\<rparr>\<rparr>
      else s)"

definition onEmailChange :: "string \<Rightarrow> wizard \<Rightarrow> wizard" where
  "onEmailChange v s = s\<lparr>bookingData := (bookingData s)\<lparr>customerEmail := v\<rparr>\<rparr>"

definition onNotesChange :: "string \<Rightarrow> wizard \<Rightarrow> wizard" where
  "onNotesChange v s = s\<lparr>bookingData := (bookingData s)\<lparr>bd_notes := v\<rparr>\<rparr>"

text \<open>
  The \<^verbatim>\<open>catch\<close> block of \<^verbatim>\<open>handleConfirmBooking\<close>, for an error with the given message,
  and its \<^verbatim>\<open>finally\<close> block.
\<close>

definition bookingCaught :: "string \<Rightarrow> wizard \<Rightarrow> wizard" where
  "bookingCaught msg s = s\<lparr>toasts := toasts s @ [ToastError (''Booking failed: '' @ msg)]\<rparr>"

definition bookingFinally :: "wizard \<Rightarrow> wizard" where
  "bookingFinally s = s\<lparr>isLoading := False\<rparr>"

definition bookingPayload :: "wizard_env \<Rightarrow> string \<Rightarrow> Department \<Rightarrow> wizard \<Rightarrow> booking_payload" where
  "bookingPayload env businessId dept s =
     \<lparr>p_businessId = businessId,
      p_businessName = business_name (env_business env),
      p_departmentName = dept_name dept,
      p_customerName = customerName (bookingData s),
      p_customerPhone = customerPhone (bookingData s),
      p_notes = bd_notes (bookingData s),
      p_bookedAt = env_now env\<rparr>"

definition qrData :: "wizard_env \<Rightarrow> booking_record \<Rightarrow> qr_payload" where
  "qrData env booking =
     \<lparr>qr_bookingId = r_id booking,
      qr_tokenNumber = r_id booking,
      qr_businessName = r_businessName booking,
      qr_departmentName = r_departmentName booking,
      qr_customerName = r_customerName booking,
      qr_date = r_bookedAt booking,
      qr_time = env_localeTime env (r_bookedAt booking)\<rparr>"

text \<open>The end of the \<^verbatim>\<open>try\<close> block, reached with the parsed booking.\<close>

definition bookingSucceeded :: "wizard_env \<Rightarrow> Department \<Rightarrow> booking_record \<Rightarrow> wizard \<Rightarrow> wizard" where
  "bookingSucceeded env dept booking s =
     s\<lparr>bookingData := (bookingData s)
         \<lparr>tokenNumber := Some 1,
          bd_estimatedWaitTime := Some (estimatedWaitTime dept),
          bookingId := r_id booking,
          qrCode := Some (qrData env booking),
          bookedAt := r_bookedAt booking,
          businessName := r_businessName booking,
          departmentName := r_departmentName booking\<rparr>,
       currentStep := Success,
       toasts := toasts s @ [ToastSuccess ''Your booking has been confirmed!'']\<rparr>"

text \<open>
  The \<^verbatim>\<open>try\<close> block with its \<^verbatim>\<open>catch\<close>, for the selected department; the second argument
  is what the one \<^verbatim>\<open>fetch\<close> gives.
\<close>

definition bookingTry ::
  "wizard_env \<Rightarrow> booking_record fetch_result \<Rightarrow> Department \<Rightarrow> wizard \<Rightarrow> wizard" where
  "bookingTry env outcome dept s =
     (case js_or (business_id (env_business env)) (business__id (env_business env)) of
        None \<Rightarrow> s\<lparr>toasts := toasts s @ [ToastError ''Business ID not found. Please try again.'']\<rparr>
      | Some businessId \<Rightarrow>
          if businessId = [] then
            s\<lparr>toasts := toasts s @ [ToastError ''Business ID not found. Please try again.'']\<rparr>
          else
            (let sent = s\<lparr>requests := requests s @
                          [PostBooking (env_token env) (bookingPayload env businessId dept s)]\<rparr>
             in case outcome of
                  Rejected msg \<Rightarrow> bookingCaught msg sent
                | Resolved res \<Rightarrow>
                    if \<not> ok res then
                      bookingCaught
                        (''Booking failed: '' @ res_status res @ '' - '' @ res_text res) sent
                    else
                      (case json res of
                         Unreadable msg \<Rightarrow> bookingCaught msg sent
                       | JNull \<Rightarrow> bookingCaught null_property_message sent
                       | JObj booking \<Rightarrow> bookingSucceeded env dept booking sent)))"

text \<open>
  \<^verbatim>\<open>handleConfirmBooking\<close>, run from the click to the end of its \<^verbatim>\<open>finally\<close> block:
  the guard, \<^verbatim>\<open>setIsLoading(true)\<close>, the \<^verbatim>\<open>try\<close> block, \<^verbatim>\<open>setIsLoading(false)\<close>.
\<close>

definition handleConfirmBooking ::
  "wizard_env \<Rightarrow> booking_record fetch_result \<Rightarrow> wizard \<Rightarrow> wizard" where
  "handleConfirmBooking env outcome s =
     (case selectedDepartment s of
        None \<Rightarrow> s
      | Some dept \<Rightarrow>
          (case env_user env of
             None \<Rightarrow> s
           | Some u \<Rightarrow> bookingFinally (bookingTry env outcome dept (s\<lparr>isLoading := True\<rparr>))))"

definition resetBooking :: "wizard_env \<Rightarrow> wizard \<Rightarrow> wizard" where
  "resetBooking env s =
     s\<lparr>currentStep := Departments,
       selectedDepartment := None,
       bookingData := initialBookingData (env_user env)\<rparr>"

definition handleClose :: "wizard_env \<Rightarrow> wizard \<Rightarrow> wizard" where
  "handleClose env s = (resetBooking env s)\<lparr>onCloseCalls := Suc (onCloseCalls s)\<rparr>"

text \<open>
  The line under the phone input, shown when
  \<^verbatim>\<open>bookingData.customerPhone && bookingData.customerPhone.length !== 10\<close>.
\<close>

definition phoneHintShown :: "wizard \<Rightarrow> bool" where
  "phoneHintShown s =
     (customerPhone (bookingData s) \<noteq> [] \<and> length (customerPhone (bookingData s)) \<noteq> 10)"

text \<open>
  The banner "This department is currently full" of a card, shown when
  \<^verbatim>\<open>dept.currentQueueSize >= dept.maxQueueSize\<close>.
\<close>

definition fullBannerShown :: "Department \<Rightarrow> bool" where
  "fullBannerShown dept = (maxQueueSize dept \<le> currentQueueSize dept)"

text \<open>
  What the success step shows after \<^verbatim>\<open>Token #\<close>: the step is rendered when
  \<^verbatim>\<open>currentStep === "success" && bookingData.tokenNumber\<close>.
\<close>

definition successTokenShown :: "wizard \<Rightarrow> int option" where
  "successTokenShown s =
     (if currentStep s = Success then
        (case tokenNumber (bookingData s) of
           None \<Rightarrow> None
         | Some n \<Rightarrow> if n = 0 then None else Some n)
      else None)"

text \<open>What the confirm step shows as token number: \<^verbatim>\<open>selectedDepartment.currentQueueSize + 1\<close>.\<close>

definition confirmTokenShown :: "wizard \<Rightarrow> int option" where
  "confirmTokenShown s =
     (if currentStep s = Confirm then
        (case selectedDepartment s of
           None \<Rightarrow> None
         | Some dept \<Rightarrow> Some (currentQueueSize dept + 1))
      else None)"

section \<open>The wizard as a transition system\<close>

text \<open>
  The user's actions. An action changes the state only where its control is rendered and
  enabled; the \<^verbatim>\<open>business\<close> prop and the session user stay the same during a run.
\<close>

datatype event =
    ClickDepartment Department
  | ClickNext
  | BackToDepartments
  | BackToDetails
  | TypeName string
  | TypePhone string
  | TypeEmail string
  | TypeNotes string
  | ClickContinue
  | ClickConfirm "booking_record fetch_result"
  | ClickClose

definition detailsRendered :: "wizard \<Rightarrow> bool" where
  "detailsRendered s = (currentStep s = Details \<and> selectedDepartment s \<noteq> None)"

definition confirmRendered :: "wizard \<Rightarrow> bool" where
  "confirmRendered s = (currentStep s = Confirm \<and> selectedDepartment s \<noteq> None)"

fun dispatch :: "wizard_env \<Rightarrow> event \<Rightarrow> wizard \<Rightarrow> wizard" where
  "dispatch env (ClickDepartment dept) s =
     (if currentStep s = Departments \<and> dept \<in> set (departments (env_business env))
      then onDepartmentClick dept s else s)"
| "dispatch env ClickNext s =
     (if currentStep s = Departments \<and> selectedDepartment s \<noteq> None
      then s\<lparr>currentStep := Details\<rparr> else s)"
| "dispatch env BackToDepartments s =
     (if detailsRendered s then s\<lparr>currentStep := Departments\<rparr> else s)"
| "dispatch env BackToDetails s =
     (if confirmRendered s then s\<lparr>currentStep := Details\<rparr> else s)"
| "dispatch env (TypeName v) s = (if detailsRendered s then onNameChange v s else s)"
| "dispatch env (TypePhone v) s = (if detailsRendered s then onPhoneChange v s else s)"
| "dispatch env (TypeEmail v) s = (if detailsRendered s then onEmailChange v s else s)"
| "dispatch env (TypeNotes v) s = (if detailsRendered s then onNotesChange v s else s)"
| "dispatch env ClickContinue s =
     (if detailsRendered s \<and> customerName (bookingData s) \<noteq> []
         \<and> customerPhone (bookingData s) \<noteq> []
      then handleDetailsSubmit s else s)"
| "dispatch env (ClickConfirm outcome) s =
     (if confirmRendered s \<and> \<not> isLoading s then handleConfirmBooking env outcome s else s)"
| "dispatch env ClickClose s = handleClose env s"

definition run :: "wizard_env \<Rightarrow> event list \<Rightarrow> wizard" where
  "run env evs = fold (dispatch env) evs (initialWizard env)"

text \<open>A run in which the props may change between the user's actions.\<close>

definition runProps :: "wizard_env \<Rightarrow> (wizard_env \<times> event) list \<Rightarrow> wizard" where
  "runProps env0 steps = fold (\<lambda>step. dispatch (fst step) (snd step)) steps (initialWizard env0)"

section \<open>The auth context\<close>

datatype endpoint = BusinessesLogin | AuthLogin

datatype form_value = FormText string | FormFile string

text \<open>The calls of \<^verbatim>\<open>fetch\<close> made by the auth context, each with what it sends.\<close>

datatype auth_request =
    GetProfile string
  | PostLogin endpoint string string string
  | PutProfileJson string js_object
  | PutProfileMultipart string "(string \<times> form_value) list"

text \<open>
  The provider's three state variables, the two items of \<^verbatim>\<open>localStorage\<close> it uses
  (\<^verbatim>\<open>JSON.stringify\<close> of the user is modelled by the user itself, \<open>None\<close> inside being
  \<^verbatim>\<open>null\<close>), and the requests sent so far.
\<close>

record auth_ctx =
  user :: "js_object option"
  isAuthenticated :: bool
  auth_isLoading :: bool
  ls_token :: "string option"
  ls_user :: "js_object option option"
  sent :: "auth_request list"


text \<open>A parsed body as a \<^verbatim>\<open>User | null\<close>; \<^verbatim>\<open>{...x}\<close> of it.\<close>

definition as_user :: "js_object json_body \<Rightarrow> js_object option" where
  "as_user b = (case b of JObj u \<Rightarrow> Some u | _ \<Rightarrow> None)"

definition spread :: "js_object option \<Rightarrow> js_object" where
  "spread x = (case x of None \<Rightarrow> Map.empty | Some u \<Rightarrow> u)"

text \<open>The \<^verbatim>\<open>catch\<close> and \<^verbatim>\<open>finally\<close> handlers of the provider's effect.\<close>

definition profileFetchFailed :: "auth_ctx \<Rightarrow> auth_ctx" where
  "profileFetchFailed c =
     c\<lparr>user := None, isAuthenticated := False, ls_user := None, ls_token := None,
       auth_isLoading := False\<rparr>"

text \<open>The provider's \<^verbatim>\<open>useEffect\<close>, run until the promise chain has settled.\<close>

definition authInit :: "js_object fetch_result \<Rightarrow> auth_ctx \<Rightarrow> auth_ctx" where
  "authInit outcome c =
     (case ls_token c of
        None \<Rightarrow> c\<lparr>user := None, isAuthenticated := False, auth_isLoading := False\<rparr>
      | Some token \<Rightarrow>
          if token = [] then c\<lparr>user := None, isAuthenticated := False, auth_isLoading := False\<rparr>
          else
            (let c1 = c\<lparr>sent := sent c @ [GetProfile token]\<rparr>
             in case outcome of
                  Rejected msg \<Rightarrow> profileFetchFailed c1
                | Resolved res \<Rightarrow>
                    if \<not> ok res then profileFetchFailed c1
                    else
                      (case json res of
                         Unreadable msg \<Rightarrow> profileFetchFailed c1
                       | profile \<Rightarrow>
                           c1\<lparr>user := as_user profile, isAuthenticated := True,
                              ls_user := Some (as_user profile), auth_isLoading := False\<rparr>)))"

definition initialAuth :: "string option \<Rightarrow> js_object option option \<Rightarrow> auth_ctx" where
  "initialAuth token stored =
     \<lparr>user = None, isAuthenticated = False, auth_isLoading = True,
      ls_token = token, ls_user = stored, sent = []\<rparr>"




definition logout :: "auth_ctx \<Rightarrow> auth_ctx" where
  "logout c = c\<lparr>ls_token := None, ls_user := None, user := None, isAuthenticated := False\<rparr>"

text \<open>
  \<^verbatim>\<open>updateProfile\<close> of \<^verbatim>\<open>contexts/AuthContext.tsx\<close>: its argument is a \<^verbatim>\<open>Partial<User>\<close>,
  always sent as JSON.
\<close>

definition updateProfile ::
  "js_object \<Rightarrow> js_object fetch_result \<Rightarrow> auth_ctx \<Rightarrow> (js_error + unit) \<times> auth_ctx" where
  "updateProfile data outcome c =
     (case ls_token c of
        None \<Rightarrow> (Inl (Error ''Not authenticated''), c)
      | Some token \<Rightarrow>
          if token = [] then (Inl (Error ''Not authenticated''), c)
          else
            (let c1 = c\<lparr>sent := sent c @ [PutProfileJson token data]\<rparr>
             in case outcome of
                  Rejected msg \<Rightarrow> (Inl (TypeError msg), c1)
                | Resolved res \<Rightarrow>
                    (case json res of
                       Unreadable msg \<Rightarrow> (Inl (SyntaxError msg), c1)
                     | result \<Rightarrow>
                         if \<not> ok res then
                           (case result of
                              JObj r \<Rightarrow>
                                (Inl (Error (case js_or (r ''message'') (Some ''Failed to update profile'') of
                                               None \<Rightarrow> [] | Some m \<Rightarrow> m)), c1)
                            | _ \<Rightarrow> (Inl (TypeError null_property_message), c1))
                         else
                           (let updatedUser = spread (user c) ++ data ++ spread (as_user result)
                            in (Inr (),
                                c1\<lparr>user := Some updatedUser,
                                   ls_user := Some (Some updatedUser)\<rparr>)))))"

text \<open>
  The argument of the second provider's \<^verbatim>\<open>updateProfile\<close>:
  \<^verbatim>\<open>Partial<User> & { profileImageFile?: File }\<close>, the file standing by its name.
\<close>

record profile_update =
  changes :: js_object
  profileImageFile :: "string option"

definition formEntry :: "js_object \<Rightarrow> string \<Rightarrow> (string \<times> form_value) list" where
  "formEntry d k = (case d k of None \<Rightarrow> [] | Some v \<Rightarrow> if v = [] then [] else [(k, FormText v)])"

text \<open>
  \<^verbatim>\<open>updateProfile\<close> of the second \<^verbatim>\<open>AuthProvider\<close> (the one with \<^verbatim>\<open>profileImageFile\<close>).
  The name \<^verbatim>\<open>updatedUser\<close> is declared nowhere in that module: assigning to it (module
  code is strict) and reading it both raise a \<^verbatim>\<open>ReferenceError\<close>, the first after
  \<^verbatim>\<open>res.json()\<close> has resolved, the second at \<^verbatim>\<open>setUser(updatedUser)\<close>.
\<close>

definition updateProfile_embedded ::
  "profile_update \<Rightarrow> js_object fetch_result \<Rightarrow> auth_ctx \<Rightarrow> (js_error + unit) \<times> auth_ctx" where
  "updateProfile_embedded data outcome c =
     (case ls_token c of
        None \<Rightarrow> (Inl (Error ''Not authenticated''), c)
      | Some token \<Rightarrow>
          if token = [] then (Inl (Error ''Not authenticated''), c)
          else
            (case profileImageFile data of
               Some file \<Rightarrow>
                 (let formData = formEntry (changes data) ''name'' @ formEntry (changes data) ''phone''
                                   @ formEntry (changes data) ''location''
                                   @ [(''profileImage'', FormFile file)];
                      c1 = c\<lparr>sent := sent c @ [PutProfileMultipart token formData]\<rparr>
                  in case outcome of
                       Rejected msg \<Rightarrow> (Inl (TypeError msg), c1)
                     | Resolved res \<Rightarrow> (Inl (ReferenceError ''updatedUser is not defined''), c1))
             | None \<Rightarrow>
                 (let c1 = c\<lparr>sent := sent c @ [PutProfileJson token (changes data)]\<rparr>
                  in case outcome of
                       Rejected msg \<Rightarrow> (Inl (TypeError msg), c1)
                     | Resolved res \<Rightarrow>
                         if \<not> ok res then (Inl (Error ''Profile update failed''), c1)
                         else
                           (case json res of
                              Unreadable msg \<Rightarrow> (Inl (SyntaxError msg), c1)
                            | result \<Rightarrow> (Inl (ReferenceError ''updatedUser is not defined''), c1)))))"

section \<open>Spec-side predicates\<close>


text \<open>
  A profile request that does not resolve successfully: it is rejected, or its status is
  not a success, or its body cannot be read as JSON.
\<close>

definition profileUnresolved :: "js_object fetch_result \<Rightarrow> bool" where
  "profileUnresolved outcome =
     (case outcome of
        Rejected msg \<Rightarrow> True
      | Resolved res \<Rightarrow> \<not> ok res \<or> (case json res of Unreadable msg \<Rightarrow> True | _ \<Rightarrow> False))"

section \<open>Example values\<close>

definition cardiology :: Department where
  "cardiology =
     \<lparr>dept_id = ''d1'', dept_name = ''Cardiology'',
      currentQueueSize = 5, maxQueueSize = 10, estimatedWaitTime = 15\<rparr>"

definition radiology :: Department where
  "radiology =
     \<lparr>dept_id = ''d2'', dept_name = ''Radiology'',
      currentQueueSize = 10, maxQueueSize = 10, estimatedWaitTime = 40\<rparr>"

definition cityHospital :: Business where
  "cityHospital =
     \<lparr>business_id = Some ''b1'', business__id = None, business_name = ''City Hospital'',
      departments = [cardiology, radiology]\<rparr>"

definition asha :: js_object where
  "asha = [''id'' \<mapsto> ''u1'', ''name'' \<mapsto> ''Asha'', ''email'' \<mapsto> ''asha@example.com'',
           ''role'' \<mapsto> ''user'']"

definition ashaEnv :: wizard_env where
  "ashaEnv =
     \<lparr>env_business = cityHospital, env_user = Some asha, env_token = Some ''tok'',
      env_now = ''2025-01-01T10:00:00.000Z'', env_localeTime = (\<lambda>d. ''10:00:00 AM'')\<rparr>"

text \<open>The state once Asha has picked Cardiology and reached the given step.\<close>

definition ashaAt :: "BookingStep \<Rightarrow> wizard" where
  "ashaAt step =
     \<lparr>currentStep = step, selectedDepartment = Some cardiology, isLoading = False,
      bookingData = (initialBookingData (Some asha))
        \<lparr>departmentId := ''d1'', customerPhone := ''9876543210''\<rparr>,
      toasts = [], requests = [], onCloseCalls = 0\<rparr>"

definition bookingReply :: "booking_record fetch_result" where
  "bookingReply =
     Resolved \<lparr>ok = True, res_status = ''201'', res_text = [],
       json = JObj \<lparr>r_id = Some ''665f1c2ab9'', r_businessName = Some ''City Hospital'',
                    r_departmentName = Some ''Cardiology'', r_customerName = Some ''Asha'',
                    r_bookedAt = Some ''2025-01-01T10:00:00.000Z''\<rparr>\<rparr>"

definition serverError :: "booking_record fetch_result" where
  "serverError =
     Resolved \<lparr>ok = False, res_status = ''500'', res_text = ''Internal Server Error'',
       json = Unreadable ''Unexpected token''\<rparr>"

definition ashaSession :: auth_ctx where
  "ashaSession =
     \<lparr>user = Some asha, isAuthenticated = True, auth_isLoading = False,
      ls_token = Some ''tok'', ls_user = Some (Some asha), sent = []\<rparr>"

definition profileReply :: "js_object fetch_result" where
  "profileReply =
     Resolved \<lparr>ok = True, res_status = ''200'', res_text = [],
       json = JObj [''name'' \<mapsto> ''Asha R'', ''profileImage'' \<mapsto> ''/uploads/u1.png'']\<rparr>"


text \<open>A business in which a second department, full, has the id of the first.\<close>

definition cardiologyB :: Department where
  "cardiologyB =
     \<lparr>dept_id = ''d1'', dept_name = ''Cardiology B'',
      currentQueueSize = 10, maxQueueSize = 10, estimatedWaitTime = 30\<rparr>"

definition twinEnv :: wizard_env where
  "twinEnv = ashaEnv\<lparr>env_business := cityHospital\<lparr>departments := [cardiology, cardiologyB]\<rparr>\<rparr>"

section \<open>Invariants of the wizard\<close>

text \<open>The selected department, if any, had room when it was picked.\<close>

definition selection_open :: "wizard \<Rightarrow> bool" where
  "selection_open s =
     (case selectedDepartment s of
        None \<Rightarrow> True
      | Some sel \<Rightarrow> currentQueueSize sel < maxQueueSize sel)"

text \<open>The selected department, if any, is one of the business's.\<close>

definition selection_listed :: "wizard_env \<Rightarrow> wizard \<Rightarrow> bool" where
  "selection_listed env s =
     (case selectedDepartment s of
        None \<Rightarrow> True
      | Some sel \<Rightarrow> sel \<in> set (departments (env_business env)))"

text \<open>The phone held by the wizard has digits only, ten at most.\<close>

definition phone_digits_only :: "wizard \<Rightarrow> bool" where
  "phone_digits_only s =
     (list_all is_digit (customerPhone (bookingData s))
      \<and> length (customerPhone (bookingData s)) \<le> 10)"

section \<open>Rounding to doubles\<close>

lemma rne_cases: "rne x = \<lfloor>x\<rfloor> \<or> rne x = \<lfloor>x\<rfloor> + 1"
  by (simp add: rne_def Let_def)

lemma rne_error: "\<bar>of_int (rne x) - x\<bar> \<le> 1 / 2"
proof -
  have "of_int \<lfloor>x\<rfloor> \<le> x" "x < of_int \<lfloor>x\<rfloor> + 1" by linarith+
  then show ?thesis
    unfolding rne_def Let_def by (auto simp add: abs_le_iff)
qed

lemma rne_of_int: "rne (of_int k) = k"
  by (simp add: rne_def)

lemma rne_ge_int:
  assumes "of_int k \<le> x"
  shows "k \<le> rne x"
proof -
  from assms have "k \<le> \<lfloor>x\<rfloor>" by (simp add: le_floor_iff)
  with rne_cases [of x] show ?thesis by linarith
qed

lemma rne_le_int:
  assumes "x \<le> of_int k"
  shows "rne x \<le> k"
proof (cases "x = of_int k")
  case True
  then show ?thesis by (simp add: rne_of_int)
next
  case False
  with assms have "x < of_int k" by simp
  then have "\<lfloor>x\<rfloor> < k" by (simp add: floor_less_iff)
  with rne_cases [of x] show ?thesis by linarith
qed

lemma rne_mono:
  assumes "x \<le> y"
  shows "rne x \<le> rne y"
proof (cases "\<lfloor>x\<rfloor> = \<lfloor>y\<rfloor>")
  case True
  with assms show ?thesis
    unfolding rne_def Let_def by auto
next
  case False
  with assms have "\<lfloor>x\<rfloor> < \<lfloor>y\<rfloor>"
    using floor_mono [of x y] by linarith
  then have "\<lfloor>x\<rfloor> + 1 \<le> \<lfloor>y\<rfloor>" by simp
  with rne_cases [of x] rne_cases [of y] show ?thesis by linarith
qed

lemma rne_lt_int:
  assumes "x < of_int k - 1 / 2"
  shows "rne x < k"
proof -
  have "of_int (rne x) - x \<le> 1 / 2" using rne_error [of x] by linarith
  with assms have "of_int (rne x) < (of_int k :: real)" by linarith
  then show ?thesis by simp
qed

lemma binade_lower:
  assumes "x \<noteq> 0"
  shows "2 powi binade x \<le> \<bar>x\<bar>"
proof (cases "1 \<le> \<bar>x\<bar>")
  case True
  define n where "n = \<lfloor>\<bar>x\<bar>\<rfloor>"
  from True have n: "0 < n" by (simp add: n_def)
  from bitlen_bounds [OF n] have "2 ^ nat (bitlen n - 1) \<le> n" by simp
  then have "(2::real) ^ nat (bitlen n - 1) \<le> of_int n"
    by (metis of_int_le_iff of_int_numeral of_int_power)
  also have "\<dots> \<le> \<bar>x\<bar>" by (simp add: n_def)
  finally have "(2::real) ^ nat (bitlen n - 1) \<le> \<bar>x\<bar>" .
  moreover from n have "0 \<le> bitlen n - 1"
    by (simp add: bitlen_alt_def)
  ultimately show ?thesis using True
    by (simp add: binade_def n_def power_int_def)
next
  case False
  define n where "n = \<lceil>1 / \<bar>x\<bar>\<rceil> - 1"
  from False assms have inv: "1 < 1 / \<bar>x\<bar>" by simp
  then have n: "0 < n" unfolding n_def by (simp add: less_ceiling_iff)
  have up: "1 / \<bar>x\<bar> \<le> of_int n + 1" unfolding n_def by simp
  from bitlen_bounds [OF n] have "n < 2 ^ nat (bitlen n)" by simp
  then have "n + 1 \<le> 2 ^ nat (bitlen n)" by simp
  then have "(of_int (n + 1) :: real) \<le> of_int (2 ^ nat (bitlen n))"
    by (simp only: of_int_le_iff)
  then have "(of_int n + 1 :: real) \<le> 2 ^ nat (bitlen n)" by simp
  with up have "1 / \<bar>x\<bar> \<le> 2 ^ nat (bitlen n)" by linarith
  with assms have "1 / 2 ^ nat (bitlen n) \<le> \<bar>x\<bar>"
    by (simp add: field_simps)
  moreover have "(2::real) powi (- bitlen n) = 1 / 2 ^ nat (bitlen n)"
    using bitlen_nonneg [of n] by (simp add: power_int_def field_simps)
  ultimately show ?thesis using False
    by (simp add: binade_def n_def)
qed

lemma binade_upper:
  assumes "x \<noteq> 0"
  shows "\<bar>x\<bar> < 2 powi (binade x + 1)"
proof (cases "1 \<le> \<bar>x\<bar>")
  case True
  define n where "n = \<lfloor>\<bar>x\<bar>\<rfloor>"
  from True have n: "0 < n" by (simp add: n_def)
  from bitlen_bounds [OF n] have "n < 2 ^ nat (bitlen n)" by simp
  then have "n + 1 \<le> 2 ^ nat (bitlen n)" by simp
  then have "(of_int (n + 1) :: real) \<le> of_int (2 ^ nat (bitlen n))"
    by (simp only: of_int_le_iff)
  then have "(of_int n + 1 :: real) \<le> 2 ^ nat (bitlen n)" by simp
  moreover have "\<bar>x\<bar> < of_int n + 1" unfolding n_def by linarith
  ultimately have "\<bar>x\<bar> < 2 ^ nat (bitlen n)" by linarith
  then show ?thesis using True bitlen_nonneg [of n]
    by (simp add: binade_def n_def power_int_def)
next
  case False
  define n where "n = \<lceil>1 / \<bar>x\<bar>\<rceil> - 1"
  from False assms have inv: "1 < 1 / \<bar>x\<bar>" by simp
  then have n: "0 < n" unfolding n_def by (simp add: less_ceiling_iff)
  have lo: "of_int n < 1 / \<bar>x\<bar>" unfolding n_def by linarith
  from n have b1: "1 \<le> bitlen n" by (simp add: bitlen_alt_def)
  from bitlen_bounds [OF n] have "2 ^ nat (bitlen n - 1) \<le> n" by simp
  then have "(of_int (2 ^ nat (bitlen n - 1)) :: real) \<le> of_int n"
    by (simp only: of_int_le_iff)
  then have "(2::real) ^ nat (bitlen n - 1) \<le> of_int n" by simp
  with lo have "(2::real) ^ nat (bitlen n - 1) < 1 / \<bar>x\<bar>" by linarith
  with assms have "\<bar>x\<bar> < 1 / 2 ^ nat (bitlen n - 1)"
    by (simp add: field_simps)
  moreover have "(2::real) powi (- bitlen n + 1) = 1 / 2 ^ nat (bitlen n - 1)"
  proof -
    have "- bitlen n + 1 = - (bitlen n - 1)" by simp
    then show ?thesis using b1
      by (simp only: power_int_minus) (simp add: power_int_def field_simps)
  qed
  ultimately show ?thesis using False
    by (simp add: binade_def n_def)
qed

lemma powi2_strict_mono: "a < b \<Longrightarrow> (2::real) powi a < 2 powi b"
  by (rule power_int_strict_increasing) simp_all

lemma powi2_mono: "a \<le> b \<Longrightarrow> (2::real) powi a \<le> 2 powi b"
  by (rule power_int_increasing) simp_all

lemma binade_eqI:
  assumes "2 powi e \<le> \<bar>x\<bar>" and "\<bar>x\<bar> < 2 powi (e + 1)"
  shows "binade x = e"
proof -
  have "0 < (2::real) powi e" by (rule zero_less_power_int) simp
  with assms(1) have "0 < \<bar>x\<bar>" by linarith
  then have nz: "x \<noteq> 0" by simp
  note lo = binade_lower [OF nz] and up = binade_upper [OF nz]
  have "\<not> binade x + 1 \<le> e"
  proof
    assume "binade x + 1 \<le> e"
    then have "(2::real) powi (binade x + 1) \<le> 2 powi e" by (rule powi2_mono)
    with up assms(1) show False by linarith
  qed
  moreover have "\<not> e + 1 \<le> binade x"
  proof
    assume "e + 1 \<le> binade x"
    then have "(2::real) powi (e + 1) \<le> 2 powi binade x" by (rule powi2_mono)
    with lo assms(2) show False by linarith
  qed
  ultimately show ?thesis by linarith
qed

lemma binade_mono:
  assumes "0 < x" and "x \<le> y"
  shows "binade x \<le> binade y"
proof (rule ccontr)
  assume "\<not> binade x \<le> binade y"
  then have "binade y + 1 \<le> binade x" by simp
  then have "(2::real) powi (binade y + 1) \<le> 2 powi binade x" by (rule powi2_mono)
  moreover from assms have "x \<noteq> 0" "y \<noteq> 0" by simp_all
  then have "2 powi binade x \<le> \<bar>x\<bar>" "\<bar>y\<bar> < 2 powi (binade y + 1)"
    by (simp_all add: binade_lower binade_upper)
  ultimately show False using assms by simp
qed

lemma ulp_pos: "0 < ulp x"
  unfolding ulp_def by (rule zero_less_power_int) simp

lemma normal_pos: "normal x \<Longrightarrow> 0 < x"
proof -
  assume "normal x"
  moreover have "0 < (2::real) powi (- 1022)" by (rule zero_less_power_int) simp
  ultimately show ?thesis unfolding normal_def by linarith
qed

lemma normal_binade:
  assumes "normal x"
  shows "- 1022 \<le> binade x"
proof (rule ccontr)
  assume "\<not> - 1022 \<le> binade x"
  then have "binade x + 1 \<le> - 1022" by simp
  then have "(2::real) powi (binade x + 1) \<le> 2 powi (- 1022)" by (rule powi2_mono)
  moreover from normal_pos [OF assms] have "x < 2 powi (binade x + 1)"
    using binade_upper [of x] by simp
  ultimately show False using assms unfolding normal_def by linarith
qed

lemma normal_ulp:
  assumes "normal x"
  shows "ulp x = 2 powi (binade x - 52)"
  using normal_binade [OF assms] by (simp add: ulp_def max_def)

lemma powi2_split: "(2::real) powi (a + b) = 2 powi a * 2 powi b"
  by (rule power_int_add) simp

lemma ulp_times:
  assumes "normal x"
  shows "ulp x * 2 ^ 52 = 2 powi binade x"
proof -
  have "(2::real) powi binade x = 2 powi ((binade x - 52) + 52)" by simp
  also have "\<dots> = 2 powi (binade x - 52) * 2 powi 52" by (rule powi2_split)
  finally show ?thesis by (simp add: normal_ulp [OF assms])
qed

lemma scaled_lower:
  assumes "normal x"
  shows "2 ^ 52 \<le> x / ulp x"
proof -
  from normal_pos [OF assms] have "2 powi binade x \<le> x"
    using binade_lower [of x] by simp
  then have "ulp x * 2 ^ 52 \<le> x" by (simp only: ulp_times [OF assms])
  then show ?thesis using ulp_pos [of x] by (simp add: field_simps)
qed

lemma scaled_upper:
  assumes "normal x"
  shows "x / ulp x < 2 ^ 53"
proof -
  from normal_pos [OF assms] have "x < 2 powi (binade x + 1)"
    using binade_upper [of x] by simp
  also have "\<dots> = 2 powi binade x * 2" by (simp add: powi2_split)
  also have "\<dots> = (ulp x * 2 ^ 52) * 2" by (simp only: ulp_times [OF assms])
  also have "\<dots> = ulp x * 2 ^ 53" by simp
  finally show ?thesis using ulp_pos [of x] by (simp add: field_simps)
qed

lemma nearest_lower:
  assumes "normal x"
  shows "2 powi binade x \<le> nearest x"
proof -
  have "(2::real) ^ 52 = of_int (2 ^ 52)" by simp
  with scaled_lower [OF assms] have "of_int (2 ^ 52) \<le> x / ulp x" by (simp only:)
  then have "2 ^ 52 \<le> rne (x / ulp x)" by (rule rne_ge_int)
  then have "(of_int (2 ^ 52) :: real) \<le> of_int (rne (x / ulp x))" by (simp only: of_int_le_iff)
  then have "ulp x * of_int (2 ^ 52) \<le> ulp x * of_int (rne (x / ulp x))"
    using ulp_pos [of x] by (simp only: mult_le_cancel_left_pos)
  moreover have "ulp x * of_int (2 ^ 52) = ulp x * 2 ^ 52" by simp
  ultimately have "ulp x * 2 ^ 52 \<le> nearest x" by (simp only: nearest_def)
  then show ?thesis by (simp only: ulp_times [OF assms])
qed

lemma nearest_upper:
  assumes "normal x"
  shows "nearest x \<le> 2 powi (binade x + 1)"
proof -
  have "(2::real) ^ 53 = of_int (2 ^ 53)" by simp
  with scaled_upper [OF assms] have "x / ulp x \<le> of_int (2 ^ 53)" by (simp only:)
  then have "rne (x / ulp x) \<le> 2 ^ 53" by (rule rne_le_int)
  then have "(of_int (rne (x / ulp x)) :: real) \<le> of_int (2 ^ 53)" by (simp only: of_int_le_iff)
  then have "ulp x * of_int (rne (x / ulp x)) \<le> ulp x * of_int (2 ^ 53)"
    using ulp_pos [of x] by (simp only: mult_le_cancel_left_pos)
  also have "\<dots> = (ulp x * 2 ^ 52) * 2" by simp
  also have "\<dots> = 2 powi binade x * 2" by (simp only: ulp_times [OF assms])
  also have "\<dots> = 2 powi (binade x + 1)" by (simp add: powi2_split)
  finally show ?thesis by (simp only: nearest_def)
qed

lemma nearest_error:
  "\<bar>nearest x - x\<bar> \<le> ulp x / 2"
proof -
  have "nearest x - x = ulp x * (of_int (rne (x / ulp x)) - x / ulp x)"
    using ulp_pos [of x] by (simp add: nearest_def field_simps)
  then have "\<bar>nearest x - x\<bar> = ulp x * \<bar>of_int (rne (x / ulp x)) - x / ulp x\<bar>"
    using ulp_pos [of x] by (simp add: abs_mult)
  also have "\<dots> \<le> ulp x * (1 / 2)"
    using rne_error [of "x / ulp x"] ulp_pos [of x] by (simp only: mult_le_cancel_left_pos)
  finally show ?thesis by simp
qed

lemma ulp_relative:
  assumes "normal x"
  shows "ulp x \<le> x / 2 ^ 52"
proof -
  from scaled_lower [OF assms] have "ulp x * 2 ^ 52 \<le> x"
    using ulp_pos [of x] by (simp add: field_simps)
  then show ?thesis by (simp add: field_simps)
qed

lemma nearest_relative:
  assumes "normal x"
  shows "nearest x \<le> x + x / 2 ^ 53"
proof -
  from nearest_error [of x] have "nearest x \<le> x + ulp x / 2" by linarith
  moreover from ulp_relative [OF assms] have "ulp x / 2 \<le> x / 2 ^ 53" by simp
  ultimately show ?thesis by linarith
qed

lemma nearest_mono:
  assumes "normal x" and "x \<le> y"
  shows "nearest x \<le> nearest y"
proof -
  from assms have ny: "normal y" unfolding normal_def by linarith
  from binade_mono [OF normal_pos [OF assms(1)] assms(2)]
  have "binade x = binade y \<or> binade x + 1 \<le> binade y" by linarith
  then show ?thesis
  proof
    assume eq: "binade x = binade y"
    then have u: "ulp x = ulp y" by (simp add: ulp_def)
    from assms(2) have "x / ulp y \<le> y / ulp y"
      using ulp_pos [of y] by (simp add: divide_right_mono)
    then have "rne (x / ulp y) \<le> rne (y / ulp y)" by (rule rne_mono)
    then have "(of_int (rne (x / ulp y)) :: real) \<le> of_int (rne (y / ulp y))"
      by (simp only: of_int_le_iff)
    then show ?thesis using ulp_pos [of y] by (simp add: nearest_def u)
  next
    assume "binade x + 1 \<le> binade y"
    then have "(2::real) powi (binade x + 1) \<le> 2 powi binade y" by (rule powi2_mono)
    with nearest_upper [OF assms(1)] nearest_lower [OF ny] show ?thesis by linarith
  qed
qed

lemma nearest_grid_ge:
  assumes "of_int k * ulp x \<le> x"
  shows "of_int k * ulp x \<le> nearest x"
proof -
  from assms have "of_int k \<le> x / ulp x"
    using ulp_pos [of x] by (simp add: field_simps)
  then have "k \<le> rne (x / ulp x)" by (rule rne_ge_int)
  then have "(of_int k :: real) \<le> of_int (rne (x / ulp x))" by (simp only: of_int_le_iff)
  then show ?thesis using ulp_pos [of x] by (simp add: nearest_def mult.commute)
qed

lemma nearest_grid_exact:
  assumes "x = of_int k * ulp x"
  shows "nearest x = x"
proof -
  from assms have "x / ulp x = of_int k"
    using ulp_pos [of x] by (simp add: field_simps)
  then have "rne (x / ulp x) = k" by (simp add: rne_of_int)
  then show ?thesis using assms by (simp add: nearest_def mult.commute)
qed

lemma to_double_normal:
  assumes "normal x" and "x < 2 powi 1023"
  shows "to_double x = Fin (nearest x)"
proof -
  from normal_pos [OF assms(1)] have pos: "0 < x" .
  have "\<not> 1023 \<le> binade x"
  proof
    assume "1023 \<le> binade x"
    then have "(2::real) powi 1023 \<le> 2 powi binade x" by (rule powi2_mono)
    moreover from pos have "2 powi binade x \<le> x" using binade_lower [of x] by simp
    ultimately show False using assms(2) by linarith
  qed
  then have "binade x + 1 \<le> 1023" by simp
  then have "(2::real) powi (binade x + 1) \<le> 2 powi 1023" by (rule powi2_mono)
  with nearest_upper [OF assms(1)] have up: "nearest x \<le> 2 powi 1023" by linarith
  have "(2::real) powi 1023 < 2 powi 1024" by (rule powi2_strict_mono) simp
  with up have lt: "nearest x < 2 powi 1024" by linarith
  have "0 < (2::real) powi binade x" by (rule zero_less_power_int) simp
  with nearest_lower [OF assms(1)] have "0 < nearest x" by linarith
  with lt have "\<not> 2 powi 1024 \<le> \<bar>nearest x\<bar>" by simp
  with pos show ?thesis by (simp add: to_double_def)
qed

lemma one_normal: "1 \<le> x \<Longrightarrow> normal x"
proof -
  assume "1 \<le> x"
  moreover have "(2::real) powi (- 1022) \<le> 2 powi 0" by (rule powi2_mono) simp
  ultimately show ?thesis unfolding normal_def by simp
qed

lemma nearest_int:
  assumes "0 < i" and "i < 2 ^ 53"
  shows "nearest (of_int i) = of_int i"
proof -
  define x :: real where "x = of_int i"
  from assms(1) have x1: "1 \<le> x" by (simp add: x_def)
  then have nx: "normal x" by (rule one_normal)
  from assms(2) have "x < of_int (2 ^ 53)" unfolding x_def by (simp only: of_int_less_iff)
  then have x53: "x < 2 powi 53" by simp
  have e53: "binade x \<le> 52"
  proof (rule ccontr)
    assume "\<not> binade x \<le> 52"
    then have "53 \<le> binade x" by simp
    then have "(2::real) powi 53 \<le> 2 powi binade x" by (rule powi2_mono)
    moreover from x1 have "2 powi binade x \<le> x" using binade_lower [of x] by simp
    ultimately show False using x53 by linarith
  qed
  define j where "j = nat (52 - binade x)"
  have u: "ulp x = 2 powi (binade x - 52)" by (rule normal_ulp [OF nx])
  have "(2::real) powi (binade x - 52) * 2 powi (52 - binade x) = 2 powi ((binade x - 52) + (52 - binade x))"
    by (rule powi2_split [symmetric])
  then have inv: "ulp x * 2 powi (52 - binade x) = 1" by (simp add: u)
  from e53 have "(2::real) powi (52 - binade x) = 2 ^ j"
    by (simp add: j_def power_int_def)
  with inv have inv': "ulp x * 2 ^ j = 1" by simp
  have "of_int (i * 2 ^ j) * ulp x = x * (ulp x * 2 ^ j)"
    by (simp add: x_def)
  then have "x = of_int (i * 2 ^ j) * ulp x" by (simp add: inv')
  then have "nearest x = x" by (rule nearest_grid_exact)
  then show ?thesis by (simp add: x_def)
qed

lemma num_exact:
  assumes "0 \<le> i" and "i < 2 ^ 53"
  shows "num i = Fin (of_int i)"
proof (cases "i = 0")
  case True
  then show ?thesis by (simp add: num_def to_double_def)
next
  case False
  with assms(1) have pos: "0 < i" by simp
  then have x1: "1 \<le> (of_int i :: real)" by simp
  from assms(2) have "(of_int i :: real) < of_int (2 ^ 53)" by (simp only: of_int_less_iff)
  then have "(of_int i :: real) < 2 powi 53" by simp
  moreover have "(2::real) powi 53 < 2 powi 1023" by (rule powi2_strict_mono) simp
  ultimately have "(of_int i :: real) < 2 powi 1023" by linarith
  from to_double_normal [OF one_normal [OF x1] this] nearest_int [OF pos assms(2)]
  show ?thesis by (simp add: num_def)
qed

lemma round_quotient:
  fixes s n :: int
  assumes "0 \<le> s" and "s < 2 ^ 52" and "0 < n" and "n < 2 ^ 53"
  shows "js_round (js_div (Fin (of_int s)) (Fin (of_int n)))
         = Fin (of_int \<lfloor>of_int s / of_int n + 1 / 2 :: real\<rfloor>)"
proof (cases "s = 0")
  case True
  then show ?thesis using assms(3) by (simp add: to_double_def)
next
  case False
  with assms(1) have s1: "1 \<le> s" by simp
  define x :: real where "x = of_int s / of_int n"
  define k where "k = \<lfloor>x + 1 / 2\<rfloor>"
  have npos: "0 < (of_int n :: real)" using assms(3) by simp
  have sr: "(of_int s :: real) < 2 ^ 52"
  proof -
    from assms(2) have "(of_int s :: real) < of_int (2 ^ 52)" by (simp only: of_int_less_iff)
    then show ?thesis by simp
  qed
  have nr: "(of_int n :: real) < 2 ^ 53"
  proof -
    from assms(4) have "(of_int n :: real) < of_int (2 ^ 53)" by (simp only: of_int_less_iff)
    then show ?thesis by simp
  qed
  have s1r: "1 \<le> (of_int s :: real)" using s1 by simp
  have n1r: "1 \<le> (of_int n :: real)" using assms(3) by simp
  have xlow: "1 / 2 ^ 53 < x"
  proof -
    have "1 / 2 ^ 53 < 1 / (of_int n :: real)"
      using nr npos by (simp add: field_simps)
    also have "\<dots> \<le> x" using s1r npos by (simp add: x_def field_simps)
    finally show ?thesis .
  qed
  have xs: "x \<le> of_int s" using n1r s1r npos by (simp add: x_def field_simps)
  have xup: "x < 2 ^ 52" using xs sr by linarith
  have nx: "normal x"
  proof -
    have "(2::real) powi (- 1022) \<le> 2 powi (- 53)" by (rule powi2_mono) simp
    also have "\<dots> = 1 / 2 ^ 53" by (simp add: power_int_minus_divide)
    finally show ?thesis using xlow unfolding normal_def by linarith
  qed
  have x1023: "x < 2 powi 1023"
  proof -
    have "(2::real) powi 52 < 2 powi 1023" by (rule powi2_strict_mono) simp
    with xup show ?thesis by simp
  qed
  have td: "to_double x = Fin (nearest x)" by (rule to_double_normal [OF nx x1023])
  have e51: "binade x \<le> 51"
  proof (rule ccontr)
    assume "\<not> binade x \<le> 51"
    then have "52 \<le> binade x" by simp
    then have "(2::real) powi 52 \<le> 2 powi binade x" by (rule powi2_mono)
    moreover from normal_pos [OF nx] have "2 powi binade x \<le> x" using binade_lower [of x] by simp
    ultimately show False using xup by simp
  qed
  define j where "j = nat (51 - binade x)"
  have u: "ulp x = 2 powi (binade x - 52)" by (rule normal_ulp [OF nx])
  have "(2::real) powi (binade x - 52) * 2 powi (51 - binade x) = 2 powi ((binade x - 52) + (51 - binade x))"
    by (rule powi2_split [symmetric])
  then have "ulp x * 2 powi (51 - binade x) = 1 / 2" by (simp add: u)
  moreover from e51 have "(2::real) powi (51 - binade x) = 2 ^ j"
    by (simp add: j_def power_int_def)
  ultimately have half: "ulp x * 2 ^ j = 1 / 2" by simp
  have klo: "of_int k - 1 / 2 \<le> x" unfolding k_def by linarith
  have khi: "x < of_int k + 1 / 2" unfolding k_def by linarith
  have lower: "of_int k - 1 / 2 \<le> nearest x"
  proof -
    have "of_int ((2 * k - 1) * 2 ^ j) * ulp x = (2 * of_int k - 1) * (ulp x * 2 ^ j)"
      by simp
    also have "\<dots> = (2 * of_int k - 1) * (1 / 2)" by (simp only: half)
    also have "\<dots> = of_int k - 1 / 2" by (simp add: algebra_simps)
    finally have g: "of_int ((2 * k - 1) * 2 ^ j) * ulp x = of_int k - 1 / 2" .
    with klo have "of_int ((2 * k - 1) * 2 ^ j) * ulp x \<le> x" by simp
    then have "of_int ((2 * k - 1) * 2 ^ j) * ulp x \<le> nearest x" by (rule nearest_grid_ge)
    with g show ?thesis by simp
  qed
  have upper: "nearest x < of_int k + 1 / 2"
  proof -
    from khi have "of_int s < (of_int k + 1 / 2) * (of_int n :: real)"
      using npos by (simp add: x_def field_simps)
    then have "(of_int (2 * s) :: real) < of_int ((2 * k + 1) * n)"
      by (simp add: algebra_simps)
    then have "2 * s < (2 * k + 1) * n" by (simp only: of_int_less_iff)
    then have "2 * s + 1 \<le> (2 * k + 1) * n" by simp
    then have "(of_int (2 * s + 1) :: real) \<le> of_int ((2 * k + 1) * n)"
      by (simp only: of_int_le_iff)
    then have gap: "2 * of_int s + 1 \<le> (2 * of_int k + 1) * (of_int n :: real)"
      by simp
    have "x + 1 / (2 * of_int n) \<le> of_int k + 1 / 2"
      using gap npos by (simp add: x_def field_simps)
    moreover have "x / 2 ^ 53 < 1 / (2 * of_int n)"
      using sr npos by (simp add: x_def field_simps)
    ultimately have "x + x / 2 ^ 53 < of_int k + 1 / 2" by linarith
    with nearest_relative [OF nx] show ?thesis by linarith
  qed
  from lower upper have "\<lfloor>nearest x + 1 / 2\<rfloor> = k" by linarith
  with td show ?thesis using assms(3) by (simp add: x_def k_def)
qed

lemma threshold_exact:
  fixes c m t :: int
  assumes c: "0 \<le> c" "c < 2 ^ 53" and m: "0 < m" "m \<le> 2 ^ 45"
    and t: "0 < t" "t \<le> 90"
    and tn: "normal (of_int t / 100)"
    and tb: "nearest (nearest (of_int t / 100) * 100) = of_int t"
  shows "js_ge (js_mul (js_div (Fin (of_int c)) (Fin (of_int m))) (Fin 100)) (of_int t)
         \<longleftrightarrow> t * m \<le> 100 * c"
proof (cases "c = 0")
  case True
  from t(1) m(1) have "0 < t * m" by simp
  then have rhs: "\<not> t * m \<le> 100 * c" using True by linarith
  have lhs: "\<not> js_ge (js_mul (js_div (Fin (of_int c)) (Fin (of_int m))) (Fin 100)) (of_int t)"
    using True m(1) t(1) by (simp add: to_double_def)
  from lhs rhs show ?thesis by blast
next
  case False
  with c(1) have c1: "1 \<le> c" by simp
  define x :: real where "x = of_int c / of_int m"
  have mpos: "0 < (of_int m :: real)" using m(1) by simp
  have m1r: "1 \<le> (of_int m :: real)" using m(1) by simp
  have c1r: "1 \<le> (of_int c :: real)" using c1 by simp
  have cr: "(of_int c :: real) < 2 ^ 53"
  proof -
    from c(2) have "(of_int c :: real) < of_int (2 ^ 53)" by (simp only: of_int_less_iff)
    then show ?thesis by simp
  qed
  have mr: "(of_int m :: real) \<le> 2 ^ 45"
  proof -
    from m(2) have "(of_int m :: real) \<le> of_int (2 ^ 45)" by (simp only: of_int_le_iff)
    then show ?thesis by simp
  qed
  have xlow: "1 / 2 ^ 45 \<le> x"
  proof -
    have "1 / 2 ^ 45 \<le> 1 / (of_int m :: real)"
      using mr mpos by (simp add: field_simps)
    also have "\<dots> \<le> x" using c1r mpos by (simp add: x_def field_simps)
    finally show ?thesis .
  qed
  have xup: "x < 2 ^ 53"
  proof -
    have "x \<le> of_int c" using m1r c1r mpos by (simp add: x_def field_simps)
    with cr show ?thesis by linarith
  qed
  have nx: "normal x"
  proof -
    have "(2::real) powi (- 1022) \<le> 2 powi (- 45)" by (rule powi2_mono) simp
    also have "\<dots> = 1 / 2 ^ 45" by (simp add: power_int_minus_divide)
    finally show ?thesis using xlow unfolding normal_def by linarith
  qed
  have x1023: "x < 2 powi 1023"
  proof -
    have "(2::real) powi 53 < 2 powi 1023" by (rule powi2_strict_mono) simp
    with xup show ?thesis by simp
  qed
  define a where "a = nearest x"
  have tdx: "to_double x = Fin a" unfolding a_def by (rule to_double_normal [OF nx x1023])
  have alow: "2 powi (- 1022) \<le> a"
  proof -
    have "(2::real) powi (- 1022) \<le> 2 powi binade x"
      by (rule powi2_mono) (rule normal_binade [OF nx])
    with nearest_lower [OF nx] show ?thesis unfolding a_def by linarith
  qed
  have apos: "0 < a" using alow normal_pos [of a] unfolding normal_def by simp
  have aup: "a \<le> x + x / 2 ^ 53" unfolding a_def by (rule nearest_relative [OF nx])
  define y where "y = a * 100"
  have ny: "normal y" using alow apos unfolding normal_def y_def by linarith
  have y1023: "y < 2 powi 1023"
  proof -
    have "y < 2 ^ 61" using aup xup unfolding y_def by simp
    moreover have "(2::real) powi 61 < 2 powi 1023" by (rule powi2_strict_mono) simp
    ultimately show ?thesis by simp
  qed
  have tdy: "to_double y = Fin (nearest y)" by (rule to_double_normal [OF ny y1023])
  have unfold: "js_ge (js_mul (js_div (Fin (of_int c)) (Fin (of_int m))) (Fin 100)) (of_int t)
                \<longleftrightarrow> of_int t \<le> nearest y"
    using m(1) tdx tdy by (simp add: x_def [symmetric] y_def [symmetric])
  have "of_int t \<le> nearest y \<longleftrightarrow> t * m \<le> 100 * c"
  proof
    assume "t * m \<le> 100 * c"
    then have "(of_int (t * m) :: real) \<le> of_int (100 * c)" by (simp only: of_int_le_iff)
    then have "of_int t * of_int m \<le> 100 * (of_int c :: real)" by simp
    then have tx: "of_int t / 100 \<le> x" using mpos by (simp add: x_def field_simps)
    from nearest_mono [OF tn tx] have b1: "nearest (of_int t / 100) \<le> a" by (simp add: a_def)
    have "(2::real) powi (- 1022) \<le> 2 powi binade (of_int t / 100)"
      by (rule powi2_mono) (rule normal_binade [OF tn])
    with nearest_lower [OF tn] have "2 powi (- 1022) \<le> nearest (of_int t / 100)" by linarith
    moreover have "0 < (2::real) powi (- 1022)" by (rule zero_less_power_int) simp
    ultimately have "normal (nearest (of_int t / 100) * 100)"
      unfolding normal_def by linarith
    moreover from b1 have "nearest (of_int t / 100) * 100 \<le> y" by (simp add: y_def)
    ultimately have "nearest (nearest (of_int t / 100) * 100) \<le> nearest y"
      by (rule nearest_mono)
    then show "of_int t \<le> nearest y" by (simp only: tb)
  next
    assume le: "of_int t \<le> nearest y"
    show "t * m \<le> 100 * c"
    proof (rule ccontr)
      assume "\<not> t * m \<le> 100 * c"
      then have "100 * c + 1 \<le> t * m" by simp
      then have "(of_int (100 * c + 1) :: real) \<le> of_int (t * m)" by (simp only: of_int_le_iff)
      then have gap: "100 * of_int c + 1 \<le> of_int t * (of_int m :: real)" by simp
      define T :: real where "T = of_int t * of_int m"
      have Tup: "T \<le> 90 * 2 ^ 45"
      proof -
        from t have t90: "(of_int t :: real) \<le> 90" by simp
        have "of_int t * of_int m \<le> 90 * (2 ^ 45 :: real)"
          by (rule mult_mono) (use t90 mr mpos in simp_all)
        then show ?thesis unfolding T_def .
      qed
      have yx: "nearest y \<le> y + y / 2 ^ 53" by (rule nearest_relative [OF ny])
      have "nearest y \<le> (100 + 200 / 2 ^ 53 + 100 / 2 ^ 106) * x"
        using yx aup unfolding y_def by (simp add: algebra_simps)
      then have "nearest y * of_int m \<le> (100 + 200 / 2 ^ 53 + 100 / 2 ^ 106) * (x * of_int m)"
        using mpos by (simp add: mult_right_mono mult.assoc)
      moreover have "x * of_int m = of_int c" using mpos by (simp add: x_def)
      ultimately have "nearest y * of_int m \<le> (100 + 200 / 2 ^ 53 + 100 / 2 ^ 106) * of_int c"
        by simp
      moreover from gap have "100 * of_int c \<le> T - 1" by (simp add: T_def)
      ultimately have "100 * (nearest y * of_int m) \<le> (100 + 200 / 2 ^ 53 + 100 / 2 ^ 106) * (T - 1)"
        by simp
      with Tup have "nearest y * of_int m < T" by simp
      then have "nearest y < of_int t" using mpos by (simp add: T_def)
      with le show False by simp
    qed
  qed
  with unfold show ?thesis by simp
qed

section \<open>Department status and statistics\<close>

lemmas double_eval = num_def to_double_def nearest_def ulp_def binade_def rne_def Let_def
  compute_bitlen

lemma percentage_8_of_10: "js_mul (js_div (num 8) (num 10)) (Fin 100) = Fin 80"
  by (simp add: double_eval)

lemma percentage_5_of_10: "js_mul (js_div (num 5) (num 10)) (Fin 100) = Fin 50"
  by (simp add: double_eval)

lemma percentage_10_of_10: "js_mul (js_div (num 10) (num 10)) (Fin 100) = Fin 100"
  by (simp add: double_eval)

text \<open>The percentage is a rounded one: 29 of 100 gives 28.999999999999996.\<close>

lemma percentage_29_of_100:
  "js_mul (js_div (num 29) (num 100)) (Fin 100) = Fin (8162774324609023 / 281474976710656)"
  by (simp add: double_eval)

lemma boundary_30: "normal (of_int 30 / 100) \<and> nearest (nearest (of_int 30 / 100) * 100) = of_int 30"
  by (simp add: normal_def double_eval)

lemma boundary_70: "normal (of_int 70 / 100) \<and> nearest (nearest (of_int 70 / 100) * 100) = of_int 70"
  by (simp add: normal_def double_eval)

lemma boundary_90: "normal (of_int 90 / 100) \<and> nearest (nearest (of_int 90 / 100) * 100) = of_int 90"
  by (simp add: normal_def double_eval)

text \<open>
  For queue sizes in the range given, the rounded percentage reaches 30, 70 or 90 exactly
  when the exact occupancy does.
\<close>

lemma percentage_ge_exact:
  assumes "0 \<le> currentQueueSize dept" and "currentQueueSize dept < 2 ^ 53"
    and "0 < maxQueueSize dept" and "maxQueueSize dept \<le> 2 ^ 45"
    and "t = 30 \<or> t = 70 \<or> t = 90"
  shows "js_ge (percentage dept) (of_int t)
         \<longleftrightarrow> t * maxQueueSize dept \<le> 100 * currentQueueSize dept"
proof -
  have tn: "normal (of_int t / 100)"
    and tb: "nearest (nearest (of_int t / 100) * 100) = of_int t"
    using assms(5) boundary_30 boundary_70 boundary_90 by auto
  from assms(5) have t: "0 < t" "t \<le> 90" by auto
  have c: "num (currentQueueSize dept) = Fin (of_int (currentQueueSize dept))"
    by (rule num_exact [OF assms(1) assms(2)])
  have "(2::int) ^ 45 < 2 ^ 53" by simp
  with assms(4) have "maxQueueSize dept < 2 ^ 53" by linarith
  with assms(3) have m: "num (maxQueueSize dept) = Fin (of_int (maxQueueSize dept))"
    by (simp add: num_exact)
  from threshold_exact [OF assms(1) assms(2) assms(3) assms(4) t tn tb]
  show ?thesis by (simp only: percentage_def c m)
qed

text \<open>
  Claim C2. The status label of a department is decided by the occupancy percentage
  \<^verbatim>\<open>(currentQueueSize / maxQueueSize) * 100\<close> as the code computes it: "Full" from 90,
  "Busy" from 70 and below 90, "Moderate" from 30 and below 70, "Available" otherwise.
  For queue sizes from 0 below \<^verbatim>\<open>2^53\<close> and a maximum from 1 to \<^verbatim>\<open>2^45\<close> the computed
  percentage reaches each threshold exactly when the exact occupancy does. 8 of 10 is
  80 percent and "Busy", 5 of 10 is 50 percent and "Moderate", 10 of 10 is 100 percent
  and "Full".
\<close>

theorem getDepartmentStatus_thresholds:
  "percentage dept
     = js_mul (js_div (num (currentQueueSize dept)) (num (maxQueueSize dept))) (Fin 100)
   \<and> (js_ge (percentage dept) 90 \<longrightarrow> status (getDepartmentStatus dept) = ''Full'')
   \<and> (js_ge (percentage dept) 70 \<and> \<not> js_ge (percentage dept) 90
        \<longrightarrow> status (getDepartmentStatus dept) = ''Busy'')
   \<and> (js_ge (percentage dept) 30 \<and> \<not> js_ge (percentage dept) 70
        \<longrightarrow> status (getDepartmentStatus dept) = ''Moderate'')
   \<and> (\<not> js_ge (percentage dept) 30 \<longrightarrow> status (getDepartmentStatus dept) = ''Available'')
   \<and> (0 \<le> currentQueueSize dept \<and> currentQueueSize dept < 2 ^ 53
        \<and> 0 < maxQueueSize dept \<and> maxQueueSize dept \<le> 2 ^ 45 \<longrightarrow>
        (js_ge (percentage dept) 90 \<longleftrightarrow> 90 * maxQueueSize dept \<le> 100 * currentQueueSize dept)
        \<and> (js_ge (percentage dept) 70 \<longleftrightarrow> 70 * maxQueueSize dept \<le> 100 * currentQueueSize dept)
        \<and> (js_ge (percentage dept) 30 \<longleftrightarrow> 30 * maxQueueSize dept \<le> 100 * currentQueueSize dept))
   \<and> percentage (dept\<lparr>currentQueueSize := 8, maxQueueSize := 10\<rparr>) = Fin 80
   \<and> status (getDepartmentStatus (dept\<lparr>currentQueueSize := 8, maxQueueSize := 10\<rparr>)) = ''Busy''
   \<and> percentage (dept\<lparr>currentQueueSize := 5, maxQueueSize := 10\<rparr>) = Fin 50
   \<and> status (getDepartmentStatus (dept\<lparr>currentQueueSize := 5, maxQueueSize := 10\<rparr>)) = ''Moderate''
   \<and> percentage (dept\<lparr>currentQueueSize := 10, maxQueueSize := 10\<rparr>) = Fin 100
   \<and> status (getDepartmentStatus (dept\<lparr>currentQueueSize := 10, maxQueueSize := 10\<rparr>)) = ''Full''"
proof -
  have ge_mono: "js_ge p a \<Longrightarrow> b \<le> a \<Longrightarrow> js_ge p b" for p a b
    by (cases p) simp_all
  have z: "percentage dept
     = js_mul (js_div (num (currentQueueSize dept)) (num (maxQueueSize dept))) (Fin 100)"
    by (simp only: percentage_def)
  have a: "js_ge (percentage dept) 90 \<longrightarrow> status (getDepartmentStatus dept) = ''Full''"
    by (simp add: getDepartmentStatus_def)
  have b: "js_ge (percentage dept) 70 \<and> \<not> js_ge (percentage dept) 90
        \<longrightarrow> status (getDepartmentStatus dept) = ''Busy''"
    by (simp add: getDepartmentStatus_def)
  have c: "js_ge (percentage dept) 30 \<and> \<not> js_ge (percentage dept) 70
        \<longrightarrow> status (getDepartmentStatus dept) = ''Moderate''"
    using ge_mono [of "percentage dept" 90 70] by (auto simp add: getDepartmentStatus_def)
  have d: "\<not> js_ge (percentage dept) 30 \<longrightarrow> status (getDepartmentStatus dept) = ''Available''"
    using ge_mono [of "percentage dept" 90 30] ge_mono [of "percentage dept" 70 30]
    by (auto simp add: getDepartmentStatus_def)
  have e: "0 \<le> currentQueueSize dept \<and> currentQueueSize dept < 2 ^ 53
        \<and> 0 < maxQueueSize dept \<and> maxQueueSize dept \<le> 2 ^ 45 \<longrightarrow>
        (js_ge (percentage dept) 90 \<longleftrightarrow> 90 * maxQueueSize dept \<le> 100 * currentQueueSize dept)
        \<and> (js_ge (percentage dept) 70 \<longleftrightarrow> 70 * maxQueueSize dept \<le> 100 * currentQueueSize dept)
        \<and> (js_ge (percentage dept) 30 \<longleftrightarrow> 30 * maxQueueSize dept \<le> 100 * currentQueueSize dept)"
    using percentage_ge_exact [of dept 90] percentage_ge_exact [of dept 70]
      percentage_ge_exact [of dept 30]
    by simp
  have p1: "percentage (dept\<lparr>currentQueueSize := 8, maxQueueSize := 10\<rparr>) = Fin 80"
    by (simp add: percentage_def percentage_8_of_10)
  have p2: "percentage (dept\<lparr>currentQueueSize := 5, maxQueueSize := 10\<rparr>) = Fin 50"
    by (simp add: percentage_def percentage_5_of_10)
  have p3: "percentage (dept\<lparr>currentQueueSize := 10, maxQueueSize := 10\<rparr>) = Fin 100"
    by (simp add: percentage_def percentage_10_of_10)
  have f: "status (getDepartmentStatus (dept\<lparr>currentQueueSize := 8, maxQueueSize := 10\<rparr>)) = ''Busy''"
    by (simp add: getDepartmentStatus_def p1)
  have g: "status (getDepartmentStatus (dept\<lparr>currentQueueSize := 5, maxQueueSize := 10\<rparr>)) = ''Moderate''"
    by (simp add: getDepartmentStatus_def p2)
  have h: "status (getDepartmentStatus (dept\<lparr>currentQueueSize := 10, maxQueueSize := 10\<rparr>)) = ''Full''"
    by (simp add: getDepartmentStatus_def p3)
  from z a b c d e p1 p2 p3 f g h show ?thesis by blast
qed

theorem getDepartmentStatus_thresholds_witness:
  "status (getDepartmentStatus radiology) = ''Full''
   \<and> status (getDepartmentStatus (cardiology\<lparr>currentQueueSize := 7\<rparr>)) = ''Busy''
   \<and> status (getDepartmentStatus cardiology) = ''Moderate''
   \<and> status (getDepartmentStatus (cardiology\<lparr>currentQueueSize := 2\<rparr>)) = ''Available''
   \<and> js_ge (percentage cardiology) 30 \<and> \<not> js_ge (percentage cardiology) 70"
proof -
  have r: "0 \<le> currentQueueSize cardiology \<and> currentQueueSize cardiology < 2 ^ 53
        \<and> 0 < maxQueueSize cardiology \<and> maxQueueSize cardiology \<le> 2 ^ 45"
    by (simp add: cardiology_def)
  have x30: "30 * maxQueueSize cardiology \<le> 100 * currentQueueSize cardiology"
    and x70: "\<not> 70 * maxQueueSize cardiology \<le> 100 * currentQueueSize cardiology"
    by (simp_all add: cardiology_def)
  from getDepartmentStatus_thresholds [of cardiology] r x30 x70
  have p3: "js_ge (percentage cardiology) 30 \<and> \<not> js_ge (percentage cardiology) 70" by blast
  have p1: "js_ge (percentage radiology) 90"
    by (simp add: percentage_def radiology_def percentage_10_of_10)
  have p2: "js_ge (percentage (cardiology\<lparr>currentQueueSize := 7\<rparr>)) 70
            \<and> \<not> js_ge (percentage (cardiology\<lparr>currentQueueSize := 7\<rparr>)) 90"
    by (simp add: percentage_def cardiology_def double_eval)
  have p4: "\<not> js_ge (percentage (cardiology\<lparr>currentQueueSize := 2\<rparr>)) 30"
    by (simp add: percentage_def cardiology_def double_eval)
  from getDepartmentStatus_thresholds [of radiology] p1
  have r1: "status (getDepartmentStatus radiology) = ''Full''" by blast
  from getDepartmentStatus_thresholds [of "cardiology\<lparr>currentQueueSize := 7\<rparr>"] p2
  have r2: "status (getDepartmentStatus (cardiology\<lparr>currentQueueSize := 7\<rparr>)) = ''Busy''" by blast
  from getDepartmentStatus_thresholds [of cardiology] p3
  have r3: "status (getDepartmentStatus cardiology) = ''Moderate''" by blast
  from getDepartmentStatus_thresholds [of "cardiology\<lparr>currentQueueSize := 2\<rparr>"] p4
  have r4: "status (getDepartmentStatus (cardiology\<lparr>currentQueueSize := 2\<rparr>)) = ''Available''"
    by blast
  from r1 r2 r3 r4 p3 show ?thesis by blast
qed

lemma js_sum_from_exact:
  assumes "\<forall>w \<in> set ws. 0 \<le> w" and "0 \<le> a" and "a + sum_list ws < 2 ^ 53"
  shows "fold (\<lambda>w total. js_add total (num w)) ws (Fin (of_int a)) = Fin (of_int (a + sum_list ws))"
  using assms
proof (induction ws arbitrary: a)
  case Nil
  then show ?case by simp
next
  case (Cons w ws)
  from Cons.prems(1) have w0: "0 \<le> w" and rest: "\<forall>v \<in> set ws. 0 \<le> v" by simp_all
  from rest have s0: "0 \<le> sum_list ws" by (simp add: sum_list_nonneg)
  from Cons.prems(3) have tot: "a + w + sum_list ws < 2 ^ 53" by (simp add: add.assoc)
  with s0 Cons.prems(2) have w53: "w < 2 ^ 53" and aw53: "a + w < 2 ^ 53" by linarith+
  from w0 Cons.prems(2) have aw0: "0 \<le> a + w" by simp
  have "js_add (Fin (of_int a)) (num w) = to_double (of_int a + of_int w)"
    by (simp add: num_exact [OF w0 w53])
  also have "\<dots> = num (a + w)" by (simp add: num_def)
  also have "\<dots> = Fin (of_int (a + w))" by (rule num_exact [OF aw0 aw53])
  finally have step: "js_add (Fin (of_int a)) (num w) = Fin (of_int (a + w))" .
  from Cons.IH [OF rest aw0 tot] step show ?case by (simp add: add.assoc)
qed

lemma js_sum_exact:
  assumes "\<forall>w \<in> set ws. 0 \<le> w" and "sum_list ws < 2 ^ 53"
  shows "js_sum ws = Fin (of_int (sum_list ws))"
  using js_sum_from_exact [of ws 0] assms by (simp add: js_sum_def)

lemma averageWaitTime_js_sum:
  "averageWaitTime business =
     js_round (js_div (js_sum (map estimatedWaitTime (departments business)))
                      (num (int (length (departments business)))))"
  by (simp add: averageWaitTime_def js_sum_def fold_map comp_def)

text \<open>Beyond that range the rounding of the quotient shows: the exact mean here is a third more than 3000000000000000.\<close>

lemma averageWaitTime_rounded_quotient:
  "js_round (js_div (js_sum [9000000000000001, 0, 0]) (num 3)) = Fin 3000000000000001"
  by (simp add: js_sum_def double_eval)

text \<open>
  Claim C10. The average wait shown is \<^verbatim>\<open>Math.round\<close> of the sum of the departments'
  estimated wait times divided by the number of departments, sum and quotient being
  computed in doubles. With no department the division is 0 / 0 and the value is NaN.
  With at least one department, wait times that are not negative and a total below
  \<^verbatim>\<open>2^52\<close>, it is the exact mean rounded to the nearest integer, a half going up.
\<close>

theorem averageWaitTime_rounded_mean:
  "(departments business = [] \<longrightarrow> averageWaitTime business = NaN)
   \<and> averageWaitTime business =
       js_round (js_div (js_sum (map estimatedWaitTime (departments business)))
                        (num (int (length (departments business)))))
   \<and> (departments business \<noteq> []
       \<and> (\<forall>dept \<in> set (departments business). 0 \<le> estimatedWaitTime dept)
       \<and> sum_list (map estimatedWaitTime (departments business)) < 2 ^ 52
       \<and> length (departments business) < 2 ^ 53 \<longrightarrow>
      averageWaitTime business =
        Fin (of_int (round (of_int (sum_list (map estimatedWaitTime (departments business)))
                             / of_nat (length (departments business)) :: real))))"
proof -
  have a: "departments business = [] \<longrightarrow> averageWaitTime business = NaN"
    by (simp add: averageWaitTime_def num_def to_double_def)
  have b: "averageWaitTime business =
       js_round (js_div (js_sum (map estimatedWaitTime (departments business)))
                        (num (int (length (departments business)))))"
    by (rule averageWaitTime_js_sum)
  have c: "departments business \<noteq> []
       \<and> (\<forall>dept \<in> set (departments business). 0 \<le> estimatedWaitTime dept)
       \<and> sum_list (map estimatedWaitTime (departments business)) < 2 ^ 52
       \<and> length (departments business) < 2 ^ 53 \<longrightarrow>
      averageWaitTime business =
        Fin (of_int (round (of_int (sum_list (map estimatedWaitTime (departments business)))
                             / of_nat (length (departments business)) :: real)))"
  proof
    assume h: "departments business \<noteq> []
       \<and> (\<forall>dept \<in> set (departments business). 0 \<le> estimatedWaitTime dept)
       \<and> sum_list (map estimatedWaitTime (departments business)) < 2 ^ 52
       \<and> length (departments business) < 2 ^ 53"
    define ws where "ws = map estimatedWaitTime (departments business)"
    define n where "n = int (length (departments business))"
    from h have nonneg: "\<forall>w \<in> set ws. 0 \<le> w" by (simp add: ws_def)
    from h have s52: "sum_list ws < 2 ^ 52" by (simp add: ws_def)
    have "(2::int) ^ 52 < 2 ^ 53" by simp
    with s52 have s53: "sum_list ws < 2 ^ 53" by linarith
    from nonneg have s0: "0 \<le> sum_list ws" by (simp add: sum_list_nonneg)
    from h have n0: "0 < n" by (simp add: n_def)
    from h have "int (length (departments business)) < int (2 ^ 53)"
      by (simp only: of_nat_less_iff)
    then have n53: "n < 2 ^ 53" by (simp add: n_def)
    from n0 have n0': "0 \<le> n" by simp
    have "averageWaitTime business = js_round (js_div (js_sum ws) (num n))"
      by (simp only: averageWaitTime_js_sum ws_def n_def)
    also have "\<dots> = js_round (js_div (Fin (of_int (sum_list ws))) (Fin (of_int n)))"
      by (simp only: js_sum_exact [OF nonneg s53] num_exact [OF n0' n53])
    also have "\<dots> = Fin (of_int \<lfloor>of_int (sum_list ws) / of_int n + 1 / 2 :: real\<rfloor>)"
      by (rule round_quotient [OF s0 s52 n0 n53])
    finally show "averageWaitTime business =
        Fin (of_int (round (of_int (sum_list (map estimatedWaitTime (departments business)))
                             / of_nat (length (departments business)) :: real)))"
      by (simp add: round_def ws_def n_def)
  qed
  from a b c show ?thesis by blast
qed

theorem averageWaitTime_rounded_mean_witness:
  "departments cityHospital \<noteq> []
   \<and> averageWaitTime cityHospital = Fin 28
   \<and> averageWaitTime (cityHospital\<lparr>departments := []\<rparr>) = NaN"
proof -
  have ne: "departments cityHospital \<noteq> []"
    by (simp add: cityHospital_def)
  have rng: "(\<forall>dept \<in> set (departments cityHospital). 0 \<le> estimatedWaitTime dept)
       \<and> sum_list (map estimatedWaitTime (departments cityHospital)) < 2 ^ 52
       \<and> length (departments cityHospital) < 2 ^ 53"
    by (simp add: cityHospital_def cardiology_def radiology_def)
  have mean: "Fin (of_int (round (of_int (sum_list (map estimatedWaitTime (departments cityHospital)))
                             / of_nat (length (departments cityHospital)) :: real))) = Fin 28"
    by (simp add: cityHospital_def cardiology_def radiology_def round_def)
  have em: "departments (cityHospital\<lparr>departments := []\<rparr>) = []"
    by simp
  from averageWaitTime_rounded_mean [of cityHospital] ne rng
  have "averageWaitTime cityHospital =
        Fin (of_int (round (of_int (sum_list (map estimatedWaitTime (departments cityHospital)))
                             / of_nat (length (departments cityHospital)) :: real)))"
    by blast
  with mean have r1: "averageWaitTime cityHospital = Fin 28" by (simp only:)
  from averageWaitTime_rounded_mean [of "cityHospital\<lparr>departments := []\<rparr>"] em
  have r2: "averageWaitTime (cityHospital\<lparr>departments := []\<rparr>) = NaN" by blast
  from ne r1 r2 show ?thesis by blast
qed

section \<open>Properties of the booking wizard\<close>

text \<open>
  Claim C6. Closing the wizard puts it back on the departments step with no department
  selected and with the booking data of a fresh wizard: empty department id, phone and
  notes, no token number, wait estimate, booking id, QR payload, timestamp or names from
  a booking, and the customer's name and email taken from the session user when there is
  one (empty otherwise).
\<close>

theorem handleClose_resets:
  "currentStep (handleClose env s) = Departments
   \<and> selectedDepartment (handleClose env s) = None
   \<and> bookingData (handleClose env s) =
       \<lparr>departmentId = [],
        customerName = (case env_user env of None \<Rightarrow> []
                        | Some u \<Rightarrow> (case u ''name'' of None \<Rightarrow> [] | Some n \<Rightarrow> n)),
        customerPhone = [],
        customerEmail = (case env_user env of None \<Rightarrow> []
                         | Some u \<Rightarrow> (case u ''email'' of None \<Rightarrow> [] | Some e \<Rightarrow> e)),
        bd_notes = [],
        tokenNumber = None, bd_estimatedWaitTime = None, bookingId = None, qrCode = None,
        bookedAt = None, businessName = None, departmentName = None\<rparr>
   \<and> bookingData (handleClose env s) = bookingData (initialWizard env)"
  by (simp add: handleClose_def resetBooking_def initialBookingData_def initialWizard_def
      user_field_or_empty_def)

lemmas confirm_defs = handleConfirmBooking_def bookingTry_def bookingFinally_def
  bookingCaught_def bookingSucceeded_def

text \<open>Whatever the user does, the phone held by the wizard has digits only, ten at most.\<close>

lemma phone_digits_only_confirm:
  "phone_digits_only s \<Longrightarrow> phone_digits_only (handleConfirmBooking env outcome s)"
  by (auto simp add: phone_digits_only_def confirm_defs Let_def
      split: option.splits fetch_result.splits json_body.splits)

lemma phone_digits_only_dispatch:
  "phone_digits_only s \<Longrightarrow> phone_digits_only (dispatch env e s)"
proof (cases e)
  case (ClickConfirm outcome)
  assume "phone_digits_only s"
  then show ?thesis
    using ClickConfirm phone_digits_only_confirm [of s env outcome] by simp
next
  case (TypePhone v)
  assume "phone_digits_only s"
  then show ?thesis
    using TypePhone
    by (simp add: phone_digits_only_def onPhoneChange_def Let_def list_all_iff)
qed (auto simp add: phone_digits_only_def onDepartmentClick_def handleDepartmentSelect_def
      onNameChange_def onEmailChange_def onNotesChange_def
      handleDetailsSubmit_def handleClose_def resetBooking_def initialBookingData_def)

lemma phone_digits_only_fold:
  "phone_digits_only s \<Longrightarrow> phone_digits_only (fold (dispatch env) evs s)"
  by (induction evs arbitrary: s) (simp_all add: phone_digits_only_dispatch)

lemma phone_digits_only_run: "phone_digits_only (run env evs)"
  unfolding run_def
  by (rule phone_digits_only_fold)
     (simp add: phone_digits_only_def initialWizard_def initialBookingData_def)

text \<open>
  The handler \<open>handleDetailsSubmit\<close> by itself: it advances on a name and a phone of ten
  digits, and shows an error notification otherwise.
\<close>

lemma handleDetailsSubmit_outcomes:
  "handleDetailsSubmit s =
     (if customerName (bookingData s) = [] \<or> customerPhone (bookingData s) = []
      then s\<lparr>toasts := toasts s @ [ToastError ''Please fill in all required fields'']\<rparr>
      else if length (customerPhone (bookingData s)) = 10
              \<and> (\<forall>c \<in> set (customerPhone (bookingData s)). c \<in> set ''0123456789'')
      then s\<lparr>currentStep := Confirm\<rparr>
      else s\<lparr>toasts := toasts s @ [ToastError ''Phone number must be exactly 10 digits'']\<rparr>)"
proof -
  have "phoneRegex_test p = (length p = 10 \<and> (\<forall>c \<in> set p. c \<in> set ''0123456789''))" for p
    unfolding phoneRegex_test_def list_all_iff is_digit_def ..
  then show ?thesis
    unfolding handleDetailsSubmit_def by (simp del: set_simps)
qed

text \<open>
  Claim C3, as stated, fails. Asha has picked Cardiology and is on the details step; her
  name is filled in from the session and the phone is still empty. Continue does not
  advance, and no message is shown: no notification, and no line under the phone input.
\<close>

theorem continue_blocked_without_message:
  "detailsRendered (run ashaEnv [ClickDepartment cardiology, ClickNext])
   \<and> currentStep (run ashaEnv [ClickDepartment cardiology, ClickNext, ClickContinue]) = Details
   \<and> toasts (run ashaEnv [ClickDepartment cardiology, ClickNext, ClickContinue]) = []
   \<and> \<not> phoneHintShown (run ashaEnv [ClickDepartment cardiology, ClickNext, ClickContinue])"
  by (simp add: run_def ashaEnv_def cityHospital_def cardiology_def radiology_def
      initialWizard_def initialBookingData_def user_field_or_empty_def asha_def
      onDepartmentClick_def handleDepartmentSelect_def detailsRendered_def phoneHintShown_def)

text \<open>
  Claim C3, amended. On the details step, Continue moves to the confirm step exactly when
  the name is not empty, the phone is not empty and the phone is ten digits. With a name
  and a phone that is not ten digits, Continue shows the error notification "Phone number
  must be exactly 10 digits" and nothing else changes. With an empty name or an empty
  phone the Continue button is disabled: nothing changes and no notification is shown. A
  change of the phone input keeps only its digits, and is ignored when more than ten
  digits remain.
\<close>

theorem details_continue_contract:
  assumes "detailsRendered s"
  shows "(currentStep (dispatch env ClickContinue s) = Confirm
            \<longleftrightarrow> customerName (bookingData s) \<noteq> []
                \<and> customerPhone (bookingData s) \<noteq> []
                \<and> length (customerPhone (bookingData s)) = 10
                \<and> (\<forall>c \<in> set (customerPhone (bookingData s)). c \<in> set ''0123456789''))
         \<and> (customerName (bookingData s) \<noteq> [] \<and> customerPhone (bookingData s) \<noteq> []
             \<and> \<not> (length (customerPhone (bookingData s)) = 10
                   \<and> (\<forall>c \<in> set (customerPhone (bookingData s)). c \<in> set ''0123456789''))
            \<longrightarrow> dispatch env ClickContinue s
                  = s\<lparr>toasts := toasts s @ [ToastError ''Phone number must be exactly 10 digits'']\<rparr>)
         \<and> (customerName (bookingData s) = [] \<or> customerPhone (bookingData s) = []
            \<longrightarrow> dispatch env ClickContinue s = s)
         \<and> (length (filter is_digit v) \<le> 10
            \<longrightarrow> customerPhone (bookingData (dispatch env (TypePhone v) s))
                  = filter (\<lambda>c. c \<in> set ''0123456789'') v)
         \<and> (10 < length (filter is_digit v) \<longrightarrow> dispatch env (TypePhone v) s = s)"
proof -
  from assms have st: "currentStep s = Details" by (simp add: detailsRendered_def)
  have digits: "is_digit = (\<lambda>c. c \<in> set ''0123456789'')"
    by (rule ext) (simp only: is_digit_def)
  have a: "currentStep (dispatch env ClickContinue s) = Confirm
            \<longleftrightarrow> customerName (bookingData s) \<noteq> []
                \<and> customerPhone (bookingData s) \<noteq> []
                \<and> length (customerPhone (bookingData s)) = 10
                \<and> (\<forall>c \<in> set (customerPhone (bookingData s)). c \<in> set ''0123456789'')"
    using assms st by (auto simp add: handleDetailsSubmit_outcomes simp del: set_simps)
  have b: "customerName (bookingData s) \<noteq> [] \<and> customerPhone (bookingData s) \<noteq> []
             \<and> \<not> (length (customerPhone (bookingData s)) = 10
                   \<and> (\<forall>c \<in> set (customerPhone (bookingData s)). c \<in> set ''0123456789''))
            \<longrightarrow> dispatch env ClickContinue s
                  = s\<lparr>toasts := toasts s @ [ToastError ''Phone number must be exactly 10 digits'']\<rparr>"
    using assms by (auto simp add: handleDetailsSubmit_outcomes simp del: set_simps)
  have c: "customerName (bookingData s) = [] \<or> customerPhone (bookingData s) = []
            \<longrightarrow> dispatch env ClickContinue s = s"
    by auto
  have d: "length (filter is_digit v) \<le> 10
            \<longrightarrow> customerPhone (bookingData (dispatch env (TypePhone v) s))
                  = filter (\<lambda>c. c \<in> set ''0123456789'') v"
    using assms by (simp add: onPhoneChange_def Let_def digits del: set_simps)
  have e: "10 < length (filter is_digit v) \<longrightarrow> dispatch env (TypePhone v) s = s"
    by (simp add: onPhoneChange_def Let_def)
  from a b c d e show ?thesis by blast
qed

theorem details_continue_contract_witness:
  "detailsRendered (ashaAt Details)
   \<and> currentStep (dispatch ashaEnv ClickContinue (ashaAt Details)) = Confirm
   \<and> dispatch ashaEnv ClickContinue (dispatch ashaEnv (TypePhone ''98765'') (ashaAt Details))
       = (dispatch ashaEnv (TypePhone ''98765'') (ashaAt Details))
           \<lparr>toasts := [ToastError ''Phone number must be exactly 10 digits'']\<rparr>
   \<and> dispatch ashaEnv ClickContinue (dispatch ashaEnv (TypePhone []) (ashaAt Details))
       = dispatch ashaEnv (TypePhone []) (ashaAt Details)
   \<and> customerPhone (bookingData (dispatch ashaEnv (TypePhone ''(987) 654-3210'') (ashaAt Details)))
       = ''9876543210''
   \<and> dispatch ashaEnv (TypePhone ''98765432109'') (ashaAt Details) = ashaAt Details"
proof -
  have r0: "detailsRendered (ashaAt Details)"
    by (simp add: detailsRendered_def ashaAt_def)
  have short: "dispatch ashaEnv (TypePhone ''98765'') (ashaAt Details)
       = (ashaAt Details)\<lparr>bookingData := (bookingData (ashaAt Details))\<lparr>customerPhone := ''98765''\<rparr>\<rparr>"
    using r0 by (simp add: onPhoneChange_def is_digit_def)
  have empty: "dispatch ashaEnv (TypePhone []) (ashaAt Details)
       = (ashaAt Details)\<lparr>bookingData := (bookingData (ashaAt Details))\<lparr>customerPhone := []\<rparr>\<rparr>"
    using r0 by (simp add: onPhoneChange_def)
  have r1: "detailsRendered (dispatch ashaEnv (TypePhone ''98765'') (ashaAt Details))"
    by (simp only: short) (simp add: detailsRendered_def ashaAt_def)
  have r2: "detailsRendered (dispatch ashaEnv (TypePhone []) (ashaAt Details))"
    by (simp only: empty) (simp add: detailsRendered_def ashaAt_def)
  have good: "customerName (bookingData (ashaAt Details)) \<noteq> []
      \<and> customerPhone (bookingData (ashaAt Details)) \<noteq> []
      \<and> length (customerPhone (bookingData (ashaAt Details))) = 10
      \<and> (\<forall>c \<in> set (customerPhone (bookingData (ashaAt Details))). c \<in> set ''0123456789'')"
    by (simp add: ashaAt_def initialBookingData_def user_field_or_empty_def asha_def)
  have bad: "customerName (bookingData (dispatch ashaEnv (TypePhone ''98765'') (ashaAt Details))) \<noteq> []
      \<and> customerPhone (bookingData (dispatch ashaEnv (TypePhone ''98765'') (ashaAt Details))) \<noteq> []
      \<and> \<not> (length (customerPhone (bookingData (dispatch ashaEnv (TypePhone ''98765'') (ashaAt Details)))) = 10
            \<and> (\<forall>c \<in> set (customerPhone (bookingData (dispatch ashaEnv (TypePhone ''98765'') (ashaAt Details)))).
                  c \<in> set ''0123456789''))"
    by (simp only: short) (simp add: ashaAt_def initialBookingData_def user_field_or_empty_def asha_def)
  have none: "customerPhone (bookingData (dispatch ashaEnv (TypePhone []) (ashaAt Details))) = []"
    by (simp only: empty) simp
  have quiet: "toasts (dispatch ashaEnv (TypePhone ''98765'') (ashaAt Details)) = []"
    by (simp only: short) (simp add: ashaAt_def)
  have fits: "length (filter is_digit ''(987) 654-3210'') \<le> 10"
    by (simp add: is_digit_def)
  have kept: "filter (\<lambda>c. c \<in> set ''0123456789'') ''(987) 654-3210'' = ''9876543210''"
    by simp
  have over: "10 < length (filter is_digit ''98765432109'')"
    by (simp add: is_digit_def)
  from details_continue_contract [OF r0, of ashaEnv "''(987) 654-3210''"] good fits kept
  have w1: "currentStep (dispatch ashaEnv ClickContinue (ashaAt Details)) = Confirm
            \<and> customerPhone (bookingData (dispatch ashaEnv (TypePhone ''(987) 654-3210'') (ashaAt Details)))
                = ''9876543210''"
    by simp
  from details_continue_contract [OF r1, of ashaEnv "[]"] bad quiet
  have w2: "dispatch ashaEnv ClickContinue (dispatch ashaEnv (TypePhone ''98765'') (ashaAt Details))
       = (dispatch ashaEnv (TypePhone ''98765'') (ashaAt Details))
           \<lparr>toasts := [ToastError ''Phone number must be exactly 10 digits'']\<rparr>"
    by simp
  from details_continue_contract [OF r2, of ashaEnv "[]"] none
  have w3: "dispatch ashaEnv ClickContinue (dispatch ashaEnv (TypePhone []) (ashaAt Details))
       = dispatch ashaEnv (TypePhone []) (ashaAt Details)"
    by blast
  from details_continue_contract [OF r0, of ashaEnv "''98765432109''"] over
  have w4: "dispatch ashaEnv (TypePhone ''98765432109'') (ashaAt Details) = ashaAt Details"
    by blast
  from r0 w1 w2 w3 w4 show ?thesis by blast
qed

text \<open>
  Claim C4. A booking submission on the confirm step that fails because the business id
  is missing, the request is rejected or the response status is not a success leaves the
  wizard on the confirm step with the selected department and the entered data as they
  were. Once the handler is past its guard (a department selected, a user signed in) the
  loading flag, set at the start, is off at the end, one error notification has been
  added, and one request has been sent (none when the business id is missing): nothing is
  retried. When the guard stops the handler, the state is untouched.
\<close>

theorem failed_booking_stays_on_confirm:
  assumes "currentStep s = Confirm"
    and "\<not> truthy (js_or (business_id (env_business env)) (business__id (env_business env)))
         \<or> (\<exists>msg. outcome = Rejected msg)
         \<or> (\<exists>res. outcome = Resolved res \<and> \<not> ok res)"
  shows "currentStep (handleConfirmBooking env outcome s) = Confirm
         \<and> bookingData (handleConfirmBooking env outcome s) = bookingData s
         \<and> selectedDepartment (handleConfirmBooking env outcome s) = selectedDepartment s
         \<and> (selectedDepartment s \<noteq> None \<and> env_user env \<noteq> None \<longrightarrow>
              \<not> isLoading (handleConfirmBooking env outcome s)
              \<and> (\<exists>msg. toasts (handleConfirmBooking env outcome s) = toasts s @ [ToastError msg])
              \<and> (if truthy (js_or (business_id (env_business env)) (business__id (env_business env)))
                  then \<exists>r. requests (handleConfirmBooking env outcome s) = requests s @ [r]
                  else requests (handleConfirmBooking env outcome s) = requests s))
         \<and> (selectedDepartment s = None \<or> env_user env = None \<longrightarrow>
              handleConfirmBooking env outcome s = s)"
  using assms
  by (auto simp add: confirm_defs truthy_def Let_def
      split: option.splits fetch_result.splits json_body.splits)

theorem failed_booking_stays_on_confirm_witness:
  "currentStep ((ashaAt Confirm)\<lparr>isLoading := True\<rparr>) = Confirm
   \<and> currentStep (handleConfirmBooking ashaEnv serverError ((ashaAt Confirm)\<lparr>isLoading := True\<rparr>))
       = Confirm
   \<and> \<not> isLoading (handleConfirmBooking ashaEnv serverError ((ashaAt Confirm)\<lparr>isLoading := True\<rparr>))
   \<and> \<not> isLoading (handleConfirmBooking ashaEnv (Rejected ''Failed to fetch'') (ashaAt Confirm))
   \<and> requests (handleConfirmBooking (ashaEnv\<lparr>env_business := cityHospital\<lparr>business_id := None\<rparr>\<rparr>)
        bookingReply (ashaAt Confirm)) = requests (ashaAt Confirm)
   \<and> handleConfirmBooking (ashaEnv\<lparr>env_user := None\<rparr>) serverError (ashaAt Confirm)
       = ashaAt Confirm"
proof -
  have st: "currentStep (ashaAt Confirm) = Confirm"
    by (simp add: ashaAt_def)
  have st': "currentStep ((ashaAt Confirm)\<lparr>isLoading := True\<rparr>) = Confirm"
    by (simp add: ashaAt_def)
  have sel: "selectedDepartment (ashaAt Confirm) \<noteq> None"
    and sel': "selectedDepartment ((ashaAt Confirm)\<lparr>isLoading := True\<rparr>) \<noteq> None"
    by (simp_all add: ashaAt_def)
  have usr: "env_user ashaEnv \<noteq> None"
    and usr': "env_user (ashaEnv\<lparr>env_business := cityHospital\<lparr>business_id := None\<rparr>\<rparr>) \<noteq> None"
    and nousr: "env_user (ashaEnv\<lparr>env_user := None\<rparr>) = None"
    by (simp_all add: ashaEnv_def)
  have f1: "\<exists>res. serverError = Resolved res \<and> \<not> ok res"
    by (simp add: serverError_def)
  have f2: "\<exists>msg. (Rejected ''Failed to fetch'' :: booking_record fetch_result) = Rejected msg"
    by simp
  have f3: "\<not> truthy (js_or
              (business_id (env_business (ashaEnv\<lparr>env_business := cityHospital\<lparr>business_id := None\<rparr>\<rparr>)))
              (business__id (env_business (ashaEnv\<lparr>env_business := cityHospital\<lparr>business_id := None\<rparr>\<rparr>))))"
    by (simp add: cityHospital_def js_or_def truthy_def)
  from failed_booking_stays_on_confirm [OF st', of ashaEnv serverError] f1 sel' usr
  have r1: "currentStep (handleConfirmBooking ashaEnv serverError ((ashaAt Confirm)\<lparr>isLoading := True\<rparr>))
       = Confirm
   \<and> \<not> isLoading (handleConfirmBooking ashaEnv serverError ((ashaAt Confirm)\<lparr>isLoading := True\<rparr>))"
    by blast
  from failed_booking_stays_on_confirm [OF st, of ashaEnv "Rejected ''Failed to fetch''"] f2 sel usr
  have r2: "\<not> isLoading (handleConfirmBooking ashaEnv (Rejected ''Failed to fetch'') (ashaAt Confirm))"
    by blast
  from failed_booking_stays_on_confirm [OF st,
      of "ashaEnv\<lparr>env_business := cityHospital\<lparr>business_id := None\<rparr>\<rparr>" bookingReply] f3 sel usr'
  have r3: "requests (handleConfirmBooking
              (ashaEnv\<lparr>env_business := cityHospital\<lparr>business_id := None\<rparr>\<rparr>)
              bookingReply (ashaAt Confirm)) = requests (ashaAt Confirm)"
    by (simp only: if_False) blast
  from failed_booking_stays_on_confirm [OF st, of "ashaEnv\<lparr>env_user := None\<rparr>" serverError] f1 nousr
  have r4: "handleConfirmBooking (ashaEnv\<lparr>env_user := None\<rparr>) serverError (ashaAt Confirm)
       = ashaAt Confirm"
    by blast
  from st' r1 r2 r3 r4 show ?thesis by blast
qed

text \<open>The department selected had room when it was picked, whatever the props were.\<close>

lemma selection_open_confirm:
  "selection_open s \<Longrightarrow> selection_open (handleConfirmBooking env outcome s)"
  by (auto simp add: selection_open_def confirm_defs Let_def
      split: option.splits fetch_result.splits json_body.splits)

lemma selection_open_dispatch:
  "selection_open s \<Longrightarrow> selection_open (dispatch env e s)"
proof (cases e)
  case (ClickConfirm outcome)
  assume "selection_open s"
  then show ?thesis
    using ClickConfirm selection_open_confirm [of s env outcome] by simp
qed (auto simp add: selection_open_def onDepartmentClick_def handleDepartmentSelect_def
      onNameChange_def onPhoneChange_def onEmailChange_def onNotesChange_def
      handleDetailsSubmit_def handleClose_def resetBooking_def Let_def
      split: option.splits)

lemma selection_open_steps:
  "selection_open s \<Longrightarrow> selection_open (fold (\<lambda>step. dispatch (fst step) (snd step)) steps s)"
  by (induction steps arbitrary: s) (simp_all add: selection_open_dispatch)

lemma selection_open_runProps: "selection_open (runProps env0 steps)"
  unfolding runProps_def
  by (rule selection_open_steps) (simp add: selection_open_def initialWizard_def)

lemma selection_open_fold:
  "selection_open s \<Longrightarrow> selection_open (fold (dispatch env) evs s)"
  by (induction evs arbitrary: s) (simp_all add: selection_open_dispatch)

lemma selection_open_run: "selection_open (run env evs)"
  unfolding run_def
  by (rule selection_open_fold) (simp add: selection_open_def initialWizard_def)

text \<open>While the props stay the same, the department selected is one of the business's.\<close>

lemma selection_listed_confirm:
  "selection_listed env s \<Longrightarrow> selection_listed env (handleConfirmBooking env outcome s)"
  by (auto simp add: selection_listed_def confirm_defs Let_def
      split: option.splits fetch_result.splits json_body.splits)

lemma selection_listed_dispatch:
  "selection_listed env s \<Longrightarrow> selection_listed env (dispatch env e s)"
proof (cases e)
  case (ClickConfirm outcome)
  assume "selection_listed env s"
  then show ?thesis
    using ClickConfirm selection_listed_confirm [of env s outcome] by simp
qed (auto simp add: selection_listed_def onDepartmentClick_def handleDepartmentSelect_def
      onNameChange_def onPhoneChange_def onEmailChange_def onNotesChange_def
      handleDetailsSubmit_def handleClose_def resetBooking_def Let_def
      split: option.splits)

lemma selection_listed_fold:
  "selection_listed env s \<Longrightarrow> selection_listed env (fold (dispatch env) evs s)"
  by (induction evs arbitrary: s) (simp_all add: selection_listed_dispatch)

lemma selection_listed_run: "selection_listed env (run env evs)"
  unfolding run_def
  by (rule selection_listed_fold) (simp add: selection_listed_def initialWizard_def)

text \<open>
  Claim C7, as stated, fails. The business has two departments with the same id:
  Cardiology with five of ten places taken, and Cardiology B, full. Asha picks Cardiology.
  The card of the full department then carries the style of the selected card, not the
  not-allowed style. The same happens to the department picked once it has filled up.
\<close>

theorem full_card_with_selected_style:
  "cardiologyB \<in> set (departments (env_business twinEnv))
   \<and> maxQueueSize cardiologyB \<le> currentQueueSize cardiologyB
   \<and> selectedDepartment (run twinEnv [ClickDepartment cardiology]) = Some cardiology
   \<and> cardClassName (run twinEnv [ClickDepartment cardiology]) cardiologyB
       = ''border-l-primary shadow-lg ring-2 ring-primary''
   \<and> cardClassName (run twinEnv [ClickDepartment cardiology]) cardiologyB
       \<noteq> ''border-l-red-500 opacity-50 cursor-not-allowed''
   \<and> cardClassName (run ashaEnv [ClickDepartment cardiology]) (cardiology\<lparr>currentQueueSize := 10\<rparr>)
       = ''border-l-primary shadow-lg ring-2 ring-primary''"
  by (simp add: run_def twinEnv_def ashaEnv_def cityHospital_def cardiology_def cardiologyB_def
      radiology_def initialWizard_def onDepartmentClick_def handleDepartmentSelect_def
      cardClassName_def)

text \<open>
  Claim C7, amended. For every department whose queue has reached its maximum: a click on
  its card changes nothing; whatever the user does and however the props change, it is
  never the wizard's selection; its card shows the banner that the department is full,
  and carries the not-allowed style unless the department selected has the same id, in
  which case it carries the style of the selected card. With props that stay the same and
  department ids that are distinct, the card of such a department of the business always
  carries the not-allowed style.
\<close>

theorem full_department_never_selected:
  assumes "maxQueueSize dept \<le> currentQueueSize dept"
  shows "onDepartmentClick dept s = s
         \<and> dispatch env (ClickDepartment dept) s = s
         \<and> selectedDepartment (runProps env0 steps) \<noteq> Some dept
         \<and> selectedDepartment (run env evs) \<noteq> Some dept
         \<and> fullBannerShown dept
         \<and> cardClassName s dept =
             (if (case selectedDepartment s of None \<Rightarrow> False
                  | Some sel \<Rightarrow> dept_id sel = dept_id dept)
              then ''border-l-primary shadow-lg ring-2 ring-primary''
              else ''border-l-red-500 opacity-50 cursor-not-allowed'')
         \<and> (distinct (map dept_id (departments (env_business env)))
             \<and> dept \<in> set (departments (env_business env))
            \<longrightarrow> cardClassName (run env evs) dept
                  = ''border-l-red-500 opacity-50 cursor-not-allowed'')"
proof -
  have click: "onDepartmentClick dept s = s"
    using assms by (simp add: onDepartmentClick_def)
  then have disp: "dispatch env (ClickDepartment dept) s = s" by simp
  have notsel: "selectedDepartment (runProps env0 steps) \<noteq> Some dept"
    using selection_open_runProps [of env0 steps] assms by (auto simp add: selection_open_def)
  have notsel': "selectedDepartment (run env evs) \<noteq> Some dept"
    using selection_open_run [of env evs] assms by (auto simp add: selection_open_def)
  have banner: "fullBannerShown dept"
    using assms by (simp add: fullBannerShown_def)
  have cls: "cardClassName s dept =
             (if (case selectedDepartment s of None \<Rightarrow> False
                  | Some sel \<Rightarrow> dept_id sel = dept_id dept)
              then ''border-l-primary shadow-lg ring-2 ring-primary''
              else ''border-l-red-500 opacity-50 cursor-not-allowed'')"
    using assms by (simp add: cardClassName_def)
  have fixed: "distinct (map dept_id (departments (env_business env)))
             \<and> dept \<in> set (departments (env_business env))
            \<longrightarrow> cardClassName (run env evs) dept
                  = ''border-l-red-500 opacity-50 cursor-not-allowed''"
  proof
    assume h: "distinct (map dept_id (departments (env_business env)))
             \<and> dept \<in> set (departments (env_business env))"
    have ids: "dept_id sel \<noteq> dept_id dept"
      if "selectedDepartment (run env evs) = Some sel" for sel
    proof
      assume eq: "dept_id sel = dept_id dept"
      from selection_listed_run [of env evs] that
      have mem: "sel \<in> set (departments (env_business env))"
        by (simp add: selection_listed_def)
      from selection_open_run [of env evs] that
      have room: "currentQueueSize sel < maxQueueSize sel"
        by (simp add: selection_open_def)
      from h mem eq have "sel = dept"
        by (simp add: distinct_map inj_on_def)
      with room assms show False by simp
    qed
    then show "cardClassName (run env evs) dept = ''border-l-red-500 opacity-50 cursor-not-allowed''"
      using assms by (auto simp add: cardClassName_def split: option.splits)
  qed
  from click disp notsel notsel' banner cls fixed show ?thesis by blast
qed

theorem full_department_never_selected_witness:
  "maxQueueSize radiology \<le> currentQueueSize radiology
   \<and> onDepartmentClick radiology (initialWizard ashaEnv) = initialWizard ashaEnv
   \<and> selectedDepartment (run ashaEnv [ClickDepartment cardiology, ClickDepartment radiology])
       \<noteq> Some radiology
   \<and> selectedDepartment
        (runProps ashaEnv
          [(ashaEnv, ClickDepartment cardiology),
           (ashaEnv\<lparr>env_business := cityHospital\<lparr>departments := [radiology]\<rparr>\<rparr>,
            ClickDepartment radiology)])
       \<noteq> Some radiology
   \<and> fullBannerShown radiology
   \<and> cardClassName (run ashaEnv [ClickDepartment cardiology, ClickDepartment radiology]) radiology
       = ''border-l-red-500 opacity-50 cursor-not-allowed''"
proof -
  have h0: "maxQueueSize radiology \<le> currentQueueSize radiology"
    by (simp add: radiology_def)
  have h1: "distinct (map dept_id (departments (env_business ashaEnv)))
            \<and> radiology \<in> set (departments (env_business ashaEnv))"
    by (simp add: ashaEnv_def cityHospital_def cardiology_def radiology_def)
  from h0 h1
    full_department_never_selected [OF h0, of "initialWizard ashaEnv" ashaEnv ashaEnv
      "[(ashaEnv, ClickDepartment cardiology),
        (ashaEnv\<lparr>env_business := cityHospital\<lparr>departments := [radiology]\<rparr>\<rparr>,
         ClickDepartment radiology)]"
      "[ClickDepartment cardiology, ClickDepartment radiology]"]
  show ?thesis by blast
qed

text \<open>
  Claim C1 (evaluation of the code). Asha confirms a booking for Cardiology, where five
  people wait, and the backend answers with booking \<open>665f1c2ab9\<close>. The wizard reaches the
  success step; the confirm step had shown token 6; the token number stored and shown on
  the success step is the literal 1, while the QR payload built from the same response
  carries the backend's value as its token number.
\<close>

theorem success_token_is_literal_one:
  "currentStep (handleConfirmBooking ashaEnv bookingReply (ashaAt Confirm)) = Success
   \<and> confirmTokenShown (ashaAt Confirm) = Some 6
   \<and> tokenNumber (bookingData (handleConfirmBooking ashaEnv bookingReply (ashaAt Confirm))) = Some 1
   \<and> successTokenShown (handleConfirmBooking ashaEnv bookingReply (ashaAt Confirm)) = Some 1
   \<and> map_option qr_tokenNumber
        (qrCode (bookingData (handleConfirmBooking ashaEnv bookingReply (ashaAt Confirm))))
       = Some (Some ''665f1c2ab9'')"
  by (simp add: confirm_defs bookingPayload_def qrData_def
      js_or_def truthy_def ashaEnv_def ashaAt_def bookingReply_def cityHospital_def
      cardiology_def successTokenShown_def confirmTokenShown_def)

text \<open>The same for every submission that reaches the success step, whatever the response.\<close>

lemma confirm_success_token_is_one:
  assumes "currentStep s = Confirm"
    and "currentStep (handleConfirmBooking env outcome s) = Success"
  shows "tokenNumber (bookingData (handleConfirmBooking env outcome s)) = Some 1
         \<and> successTokenShown (handleConfirmBooking env outcome s) = Some 1"
  using assms
  by (auto simp add: confirm_defs successTokenShown_def Let_def
      split: option.splits fetch_result.splits json_body.splits if_splits)

section \<open>Properties of the auth context\<close>

text \<open>
  Claim C5. When the provider starts with a stored token (one that passes the test
  \<^verbatim>\<open>if (token)\<close>) and the profile request does not resolve successfully, the user is
  null, the context is unauthenticated and both stored items are gone; without such a
  token the context is unauthenticated as well and no request is sent; the loading flag
  is off at the end in every case.
\<close>

theorem authInit_without_profile:
  "(truthy (ls_token c) \<and> profileUnresolved outcome
       \<longrightarrow> user (authInit outcome c) = None
           \<and> \<not> isAuthenticated (authInit outcome c)
           \<and> ls_token (authInit outcome c) = None
           \<and> ls_user (authInit outcome c) = None)
   \<and> (\<not> truthy (ls_token c)
       \<longrightarrow> user (authInit outcome c) = None \<and> \<not> isAuthenticated (authInit outcome c)
           \<and> sent (authInit outcome c) = sent c)
   \<and> \<not> auth_isLoading (authInit outcome c)"
  by (auto simp add: authInit_def profileFetchFailed_def profileUnresolved_def truthy_def Let_def
      split: option.splits fetch_result.splits json_body.splits)

theorem authInit_without_profile_witness:
  "truthy (ls_token (initialAuth (Some ''tok'') (Some (Some asha))))
   \<and> profileUnresolved (Rejected ''Failed to fetch'')
   \<and> user (authInit (Rejected ''Failed to fetch'') (initialAuth (Some ''tok'') (Some (Some asha)))) = None
   \<and> \<not> isAuthenticated
         (authInit (Rejected ''Failed to fetch'') (initialAuth (Some ''tok'') (Some (Some asha))))
   \<and> ls_token (authInit (Rejected ''Failed to fetch'') (initialAuth (Some ''tok'') (Some (Some asha))))
       = None
   \<and> ls_user (authInit (Rejected ''Failed to fetch'') (initialAuth (Some ''tok'') (Some (Some asha))))
       = None
   \<and> \<not> truthy (ls_token (initialAuth None None))
   \<and> \<not> isAuthenticated (authInit profileReply (initialAuth None None))
   \<and> \<not> auth_isLoading (authInit profileReply (initialAuth None None))"
proof -
  have h1: "truthy (ls_token (initialAuth (Some ''tok'') (Some (Some asha))))"
    by (simp add: initialAuth_def truthy_def)
  have h2: "profileUnresolved (Rejected ''Failed to fetch'')"
    by (simp add: profileUnresolved_def)
  have h3: "\<not> truthy (ls_token (initialAuth None None))"
    by (simp add: initialAuth_def truthy_def)
  from authInit_without_profile
         [of "initialAuth (Some ''tok'') (Some (Some asha))" "Rejected ''Failed to fetch''"]
       h1 h2
  have r1: "user (authInit (Rejected ''Failed to fetch'') (initialAuth (Some ''tok'') (Some (Some asha)))) = None
   \<and> \<not> isAuthenticated
         (authInit (Rejected ''Failed to fetch'') (initialAuth (Some ''tok'') (Some (Some asha))))
   \<and> ls_token (authInit (Rejected ''Failed to fetch'') (initialAuth (Some ''tok'') (Some (Some asha))))
       = None
   \<and> ls_user (authInit (Rejected ''Failed to fetch'') (initialAuth (Some ''tok'') (Some (Some asha))))
       = None"
    by blast
  from authInit_without_profile [of "initialAuth None None" profileReply] h3
  have r2: "\<not> isAuthenticated (authInit profileReply (initialAuth None None))
   \<and> \<not> auth_isLoading (authInit profileReply (initialAuth None None))"
    by blast
  from h1 h2 h3 r1 r2 show ?thesis by blast
qed






text \<open>
  \<open>updateProfile\<close> of \<^verbatim>\<open>contexts/AuthContext.tsx\<close>: without a token it throws and touches
  nothing; with one it sends the changes as JSON, and on a successful response the user in
  memory and in storage is the old user overlaid with the changes and then with the
  server's record.
\<close>

lemma updateProfile_no_token:
  assumes "\<not> truthy (ls_token c)"
  shows "updateProfile data outcome c = (Inl (Error ''Not authenticated''), c)"
  using assms by (simp add: updateProfile_def truthy_def split: option.splits)

lemma updateProfile_sends_json:
  assumes "ls_token c = Some token" and "token \<noteq> []"
  shows "sent (snd (updateProfile data outcome c)) = sent c @ [PutProfileJson token data]"
  using assms
  by (auto simp add: updateProfile_def Let_def
      split: option.splits fetch_result.splits json_body.splits)

lemma updateProfile_merges:
  assumes "ls_token c = Some token" and "token \<noteq> []"
    and "outcome = Resolved res" and "ok res" and "json res = JObj result"
  shows "fst (updateProfile data outcome c) = Inr ()
         \<and> user (snd (updateProfile data outcome c)) = Some (spread (user c) ++ data ++ result)
         \<and> ls_user (snd (updateProfile data outcome c))
             = Some (Some (spread (user c) ++ data ++ result))
         \<and> (\<forall>k v. result k = Some v \<longrightarrow> (spread (user c) ++ data ++ result) k = Some v)"
  using assms
  by (auto simp add: updateProfile_def as_user_def spread_def Let_def map_add_def
      split: option.splits)

text \<open>The second provider's \<open>updateProfile\<close>: it throws on every path and never sets the user.\<close>

lemma updateProfile_embedded_no_token:
  assumes "\<not> truthy (ls_token c)"
  shows "updateProfile_embedded data outcome c = (Inl (Error ''Not authenticated''), c)"
  using assms by (simp add: updateProfile_embedded_def truthy_def split: option.splits)

lemma updateProfile_embedded_always_throws:
  "\<exists>e. fst (updateProfile_embedded data outcome c) = Inl e"
  by (auto simp add: updateProfile_embedded_def Let_def
      split: option.splits fetch_result.splits json_body.splits)

lemma updateProfile_embedded_keeps_user:
  "user (snd (updateProfile_embedded data outcome c)) = user c
   \<and> ls_user (snd (updateProfile_embedded data outcome c)) = ls_user c"
  by (auto simp add: updateProfile_embedded_def Let_def
      split: option.splits fetch_result.splits json_body.splits)

text \<open>
  Claim C9 (evaluation of the code). Asha, signed in, updates her name and adds a profile
  image; the server answers with a success and her new record. The second provider's
  \<open>updateProfile\<close> sends the multipart request and then raises a \<open>ReferenceError\<close>: the
  user in memory and the stored user are the old ones, the server's record is not merged.
\<close>

theorem embedded_updateProfile_never_merges:
  "updateProfile_embedded
     \<lparr>changes = [''name'' \<mapsto> ''Asha R''], profileImageFile = Some ''me.png''\<rparr>
     profileReply ashaSession
   = (Inl (ReferenceError ''updatedUser is not defined''),
      ashaSession\<lparr>sent := [PutProfileMultipart ''tok''
         [(''name'', FormText ''Asha R''), (''profileImage'', FormFile ''me.png'')]]\<rparr>)
   \<and> user (snd (updateProfile_embedded
        \<lparr>changes = [''name'' \<mapsto> ''Asha R''], profileImageFile = Some ''me.png''\<rparr>
        profileReply ashaSession)) = Some asha
   \<and> ls_user (snd (updateProfile_embedded
        \<lparr>changes = [''name'' \<mapsto> ''Asha R''], profileImageFile = Some ''me.png''\<rparr>
        profileReply ashaSession)) = Some (Some asha)"
  by (simp add: updateProfile_embedded_def ashaSession_def profileReply_def formEntry_def)

end
